theory Spec2Isabelle
  imports Complex_Main "HOL-Library.Char_ord" "HOL-Library.List_Lexorder"
    "HOL-Library.Product_Lexorder" "HOL-Library.Option_ord"
begin

section \<open>Characters, lines and fields\<close>

text \<open>
  The program is the shell script \<^verbatim>\<open>third_party/gimme/gimme\<close>.  A text file is the
  list of its lines, a line is a \<^typ>\<open>string\<close>.  The character classes are those of
  the script's patterns, read in the C locale.
\<close>

definition digit :: "char \<Rightarrow> bool" where
  "digit c = (c \<in> set ''0123456789'')"

definition hexdigit :: "char \<Rightarrow> bool" where
  "hexdigit c = (c \<in> set ''0123456789abcdef'')"

definition alpha :: "char \<Rightarrow> bool" where
  "alpha c = (c \<in> set ''abcdefghijklmnopqrstuvwxyzABCDEFGHIJKLMNOPQRSTUVWXYZ'')"

definition alnum :: "char \<Rightarrow> bool" where
  "alnum c = (digit c \<or> alpha c)"

definition starts_with :: "string \<Rightarrow> string \<Rightarrow> bool" where
  "starts_with p s = (take (length p) s = p)"

text \<open>The value of a run of decimal digits, and the decimal numeral of a number.\<close>

definition digit_val :: "char \<Rightarrow> nat" where
  "digit_val c = of_char c - 48"

definition nat_of_digits :: "string \<Rightarrow> nat" where
  "nat_of_digits ds = foldl (\<lambda>n c. 10 * n + digit_val c) 0 ds"

text \<open>Fields of a line at a one-character separator (awk's \<^verbatim>\<open>-F\<close>).\<close>

fun split_on :: "char \<Rightarrow> string \<Rightarrow> string list" where
  "split_on d [] = [[]]"
| "split_on d (c # cs) =
     (if c = d then [] # split_on d cs
      else (case split_on d cs of [] \<Rightarrow> [[c]] | f # fs \<Rightarrow> (c # f) # fs))"

section \<open>Sorting versions: \<^verbatim>\<open>_version_sort\<close> (lines 121-134)\<close>

text \<open>
  The script takes \<^verbatim>\<open>sort --version-sort\<close> where the host's sort has it, and
  otherwise a pipeline of sed, \<^verbatim>\<open>sort --general-numeric-sort\<close> and sed.

  The three sed commands of the pipeline.  A \<^verbatim>\<open>s/../../g\<close> replaces the matches found
  from left to right, each search starting behind the previous match.

  \<^verbatim>\<open>s/\.([0-9](\.|$))/.00\1/g\<close>: a dot, one digit, then a dot or the end of the line.
\<close>

fun sed_pad1 :: "string \<Rightarrow> string" where
  "sed_pad1 (a # b # c # cs) =
     (if a = CHR ''.'' \<and> digit b \<and> c = CHR ''.'' then ''.00'' @ [b, c] @ sed_pad1 cs
      else a # sed_pad1 (b # c # cs))"
| "sed_pad1 [a, b] = (if a = CHR ''.'' \<and> digit b then ''.00'' @ [b] else [a, b])"
| "sed_pad1 cs = cs"

text \<open>\<^verbatim>\<open>s/\.([0-9][0-9](\.|$))/.0\1/g\<close>: a dot, two digits, then a dot or the end.\<close>

fun sed_pad2 :: "string \<Rightarrow> string" where
  "sed_pad2 (a # b # c # d # cs) =
     (if a = CHR ''.'' \<and> digit b \<and> digit c \<and> d = CHR ''.''
      then ''.0'' @ [b, c, d] @ sed_pad2 cs
      else a # sed_pad2 (b # c # d # cs))"
| "sed_pad2 [a, b, c] =
     (if a = CHR ''.'' \<and> digit b \<and> digit c then ''.0'' @ [b, c] else [a, b, c])"
| "sed_pad2 cs = cs"

text \<open>\<^verbatim>\<open>s/\.00*/./g\<close>: a dot and the longest run of one or more zeros behind it.\<close>

function sed_unpad :: "string \<Rightarrow> string" where
  "sed_unpad (a # b # cs) =
     (if a = CHR ''.'' \<and> b = CHR ''0''
      then CHR ''.'' # sed_unpad (dropWhile (\<lambda>c. c = CHR ''0'') cs)
      else a # sed_unpad (b # cs))"
| "sed_unpad [a] = [a]"
| "sed_unpad [] = []"
  by pat_completeness auto
termination
  by (relation "measure length") (auto simp: length_dropWhile_le less_Suc_eq_le le_SucI)

text \<open>
  \<^verbatim>\<open>sort --general-numeric-sort\<close> reads the longest prefix of a line that is a number
  (here: digits, then possibly a dot and digits) and orders the lines by that number,
  lines with no such prefix first; lines whose numbers are equal are ordered by the
  bytes of the whole line (sort's last-resort comparison).
\<close>

definition general_numeric_key :: "string \<Rightarrow> rat option" where
  "general_numeric_key l =
     (let ip = takeWhile digit l;
          r = dropWhile digit l;
          fp = (if starts_with ''.'' r then takeWhile digit (tl r) else [])
      in if ip = [] \<and> fp = [] then None
         else Some (of_nat (nat_of_digits ip) + of_nat (nat_of_digits fp) / 10 ^ length fp))"

definition sort_general_numeric :: "string list \<Rightarrow> string list" where
  "sort_general_numeric ls = sort_key (\<lambda>l. (general_numeric_key l, l)) ls"

text \<open>
  \<^verbatim>\<open>sort --version-sort\<close> on lines of dotted numbers: the components are compared as
  numbers, from the left, a line that is a proper prefix of another first; lines that
  compare equal are ordered by their bytes.
\<close>

definition version_key :: "string \<Rightarrow> nat list \<times> string" where
  "version_key l = (map nat_of_digits (split_on CHR ''.'' l), l)"

definition sort_version_sort :: "string list \<Rightarrow> string list" where
  "sort_version_sort ls = sort_key version_key ls"

text \<open>
  \<^verbatim>\<open>_version_sort\<close>.  Which of the two definitions the script makes is decided once, by
  whether \<^verbatim>\<open>sort --version-sort </dev/null\<close> succeeds on the host (line 124).
\<close>

definition version_sort_fallback :: "string list \<Rightarrow> string list" where
  "version_sort_fallback ls =
     map sed_unpad (sort_general_numeric (map (sed_pad2 \<circ> sed_pad1) ls))"

definition version_sort :: "bool \<Rightarrow> string list \<Rightarrow> string list" where
  "version_sort native ls =
     (if native then sort_version_sort ls else version_sort_fallback ls)"


section \<open>Configuration, files and the network\<close>

text \<open>
  The script's settings are environment variables and two flags; the record keeps their
  names.  \<open>has_version_sort\<close> says which \<^verbatim>\<open>_version_sort\<close> line 124 has chosen.
\<close>

record config =
  GIMME_VERSION_PREFIX :: string
  GIMME_ENV_PREFIX :: string
  GIMME_TMP :: string
  GIMME_OS :: string
  GIMME_ARCH :: string
  GIMME_HOSTOS :: string
  GIMME_TYPE :: string
  GIMME_GO_VERSION :: string
  GIMME_LIST_KNOWN :: string
  GIMME_KNOWN_CACHE_MAX :: int
  GIMME_SILENT_ENV :: string
  force_known_update :: bool
  has_version_sort :: bool

text \<open>
  A file has its lines, its modification time in seconds and its executable bit;
  directories are the prefixes of the paths.  The world of a run is the files, the
  clock (\<^verbatim>\<open>date +%s\<close>), what the network answers to a URL, and the URLs requested so
  far, oldest first.
\<close>

record fnode =
  content :: "string list"
  mtime :: int
  executable :: bool

datatype reply = Served "string list" | Failed "string list option"

record world =
  files :: "string \<rightharpoonup> fnode"
  now :: int
  net :: "string \<Rightarrow> reply"
  fetched :: "string list"

definition write_file :: "string \<Rightarrow> string list \<Rightarrow> world \<Rightarrow> world" where
  "write_file p ls w =
     w\<lparr>files := (files w)(p \<mapsto>
        \<lparr>content = ls, mtime = now w,
         executable = (case files w p of None \<Rightarrow> False | Some n \<Rightarrow> executable n)\<rparr>)\<rparr>"

definition rm_f :: "string \<Rightarrow> world \<Rightarrow> world" where
  "rm_f p w = w\<lparr>files := (files w)(p := None)\<rparr>"

definition mv :: "string \<Rightarrow> string \<Rightarrow> world \<Rightarrow> world" where
  "mv a b w =
     (case files w a of None \<Rightarrow> w
      | Some n \<Rightarrow> w\<lparr>files := (files w)(b \<mapsto> n, a := None)\<rparr>)"

text \<open>\<^verbatim>\<open>rm -rf p\<close> removes \<open>p\<close> and all below it; the empty path names nothing.\<close>

definition rm_rf :: "string \<Rightarrow> world \<Rightarrow> world" where
  "rm_rf p w =
     (if p = [] then w
      else w\<lparr>files := (\<lambda>k. if k = p \<or> starts_with (p @ ''/'') k then None else files w k)\<rparr>)"

text \<open>
  \<^verbatim>\<open>_do_curl url file\<close> (lines 88-108), with one of curl, wget and fetch installed: the
  download succeeds and writes the file, or it fails, leaving either nothing new or
  the part it received.
\<close>

definition do_curl :: "string \<Rightarrow> string \<Rightarrow> world \<Rightarrow> bool \<times> world" where
  "do_curl url file w =
     (let w1 = w\<lparr>fetched := fetched w @ [url]\<rparr>
      in case net w url of
           Served c \<Rightarrow> (True, write_file file c w1)
         | Failed None \<Rightarrow> (False, w1)
         | Failed (Some c) \<Rightarrow> (False, write_file file c w1))"

text \<open>
  \<^verbatim>\<open>_last_mod_timestamp\<close> (lines 684-694): the status and what is printed.  On a host
  that is neither darwin, *bsd nor linux no branch of the case runs: nothing is printed
  and the status is 0.
\<close>

definition ends_with :: "string \<Rightarrow> string \<Rightarrow> bool" where
  "ends_with p s = starts_with (rev p) (rev s)"

definition stat_mtime :: "string \<Rightarrow> world \<Rightarrow> bool \<times> int option" where
  "stat_mtime file w =
     (case files w file of None \<Rightarrow> (False, None) | Some n \<Rightarrow> (True, Some (mtime n)))"

definition last_mod_timestamp :: "config \<Rightarrow> string \<Rightarrow> world \<Rightarrow> bool \<times> int option" where
  "last_mod_timestamp cfg filename w =
     (if GIMME_HOSTOS cfg = ''darwin'' \<or> ends_with ''bsd'' (GIMME_HOSTOS cfg)
      then stat_mtime filename w
      else if GIMME_HOSTOS cfg = ''linux'' then stat_mtime filename w
      else (True, None))"

text \<open>
  \<^verbatim>\<open>_file_older_than_secs\<close> (lines 696-703).  A failing stat returns "older"; an empty
  \<open>ts\<close> counts as 0 in the arithmetic of line 702.
\<close>

definition file_older_than_secs :: "config \<Rightarrow> string \<Rightarrow> int \<Rightarrow> world \<Rightarrow> bool" where
  "file_older_than_secs cfg file age_secs w =
     (case last_mod_timestamp cfg file w of
        (False, _) \<Rightarrow> True
      | (True, ts) \<Rightarrow> now w - (case ts of None \<Rightarrow> 0 | Some t \<Rightarrow> t) > age_secs)"

section \<open>The catalog of known versions (lines 544-572)\<close>

text \<open>
  \<^verbatim>\<open>read -r\<close> gives the line without the blanks at its ends.  The pattern of line 546,
  \<^verbatim>\<open>go([[:alnum:]\.]*)\.src.*\<close>, is searched in the line: the leftmost \<^verbatim>\<open>go\<close> that
  can be completed counts, and the group is the longest that can be followed by
  \<^verbatim>\<open>.src\<close>.  Inside the brackets the backslash is a member of the class.
\<close>

definition blank :: "char \<Rightarrow> bool" where
  "blank c = (c = CHR '' '' \<or> c = CHR 0x09)"

definition read_r :: "string \<Rightarrow> string" where
  "read_r l = rev (dropWhile blank (rev (dropWhile blank l)))"

definition group_char :: "char \<Rightarrow> bool" where
  "group_char c = (alnum c \<or> c = CHR 0x5C \<or> c = CHR ''.'')"

definition longest_group :: "string \<Rightarrow> string option" where
  "longest_group t =
     (let r = takeWhile group_char t
      in case filter (\<lambda>k. take 4 (drop k r) = ''.src'') (rev [0..<length r]) of
           [] \<Rightarrow> None
         | k # _ \<Rightarrow> Some (take k r))"

fun known_match :: "string \<Rightarrow> string option" where
  "known_match [] = None"
| "known_match (c # cs) =
     (if starts_with ''go'' (c # cs)
      then (case longest_group (tl cs) of Some g \<Rightarrow> Some g | None \<Rightarrow> known_match cs)
      else known_match cs)"

definition known_list :: "config \<Rightarrow> string" where
  "known_list cfg = GIMME_VERSION_PREFIX cfg @ ''/known-versions.txt''"

definition known_dl :: "config \<Rightarrow> string" where
  "known_dl cfg = GIMME_TMP cfg @ ''/known-dl''"

text \<open>
  \<^verbatim>\<open>_update_remote_known_list_if_needed\<close>: what it prints (the path of the list) and
  the world it leaves.  The script runs it in command substitutions only (lines 576 and
  619), where bash does not apply \<^verbatim>\<open>set -e\<close>: a failing \<^verbatim>\<open>_do_curl\<close> on line 559 does
  not end it.  When the download file is missing, the loop of lines 561-565 does not
  run and the rest of the pipeline sees no input.  Directories are not files of the
  model, so the \<^verbatim>\<open>mkdir\<close> of line 557 changes nothing.
\<close>

definition parse_known :: "string \<Rightarrow> world \<Rightarrow> string list" where
  "parse_known dlfile w =
     (case files w dlfile of
        None \<Rightarrow> []
      | Some n \<Rightarrow> List.map_filter (\<lambda>l. known_match (read_r l)) (content n))"

definition update_remote_known_list_if_needed :: "config \<Rightarrow> world \<Rightarrow> string \<times> world" where
  "update_remote_known_list_if_needed cfg w =
     (let list = known_list cfg; dlfile = known_dl cfg
      in if files w list \<noteq> None \<and> \<not> force_known_update cfg \<and>
            \<not> file_older_than_secs cfg list (GIMME_KNOWN_CACHE_MAX cfg) w
         then (list, w)
         else
           (let (_, w1) = do_curl (GIMME_LIST_KNOWN cfg) dlfile w;
                w2 = write_file (list @ ''.new'')
                       (remdups_adj (version_sort (has_version_sort cfg) (parse_known dlfile w1))) w1;
                w3 = rm_f list w2;
                w4 = mv (list @ ''.new'') list w3;
                w5 = rm_f dlfile w4
            in (list, w5)))"

section \<open>Checking out a revision: \<^verbatim>\<open>_checkout\<close> (lines 216-271)\<close>

text \<open>
  A function of the script ends by returning a status or by ending the shell.
\<close>

datatype ending = Returned nat | Exited nat

text \<open>
  The git commands the function runs in \<^verbatim>\<open>godir\<close>, each with its argument: the reset
  of line 228, \<^verbatim>\<open>try_spec\<close> (the reset of line 244, with \<^verbatim>\<open>--\<close> behind the argument),
  \<^verbatim>\<open>rev-parse --verify -q\<close> of line 262 and \<^verbatim>\<open>rev-parse --verify -q --short=12\<close> of
  line 264.  Git itself is a parameter: for a directory, a command and a repository it
  gives the success, the line printed and the repository left.  The resets are quiet:
  what they print is not part of the model.  The run keeps the commands issued, oldest
  first, beside the repository.
\<close>

datatype git_cmd =
    Reset_hard string
  | Try_spec string
  | Rev_parse_object string
  | Rev_parse_short string

type_synonym 'r git = "string \<Rightarrow> git_cmd \<Rightarrow> 'r \<Rightarrow> bool \<times> string \<times> 'r"

type_synonym 'r gitrun = "'r \<times> git_cmd list"

definition git_run :: "'r git \<Rightarrow> string \<Rightarrow> git_cmd \<Rightarrow> 'r gitrun \<Rightarrow> bool \<times> string \<times> 'r gitrun" where
  "git_run g godir c s =
     (case g godir c (fst s) of (ok, out, r) \<Rightarrow> (ok, out, (r, snd s @ [c])))"

definition try_spec :: "'r git \<Rightarrow> string \<Rightarrow> string \<Rightarrow> 'r gitrun \<Rightarrow> bool \<times> 'r gitrun" where
  "try_spec g godir x s = (case git_run g godir (Try_spec x) s of (ok, _, s') \<Rightarrow> (ok, s'))"

text \<open>Line 224, \<^verbatim>\<open>^[0-9a-f]{6,}$\<close>, and line 238, \<^verbatim>\<open>[@^~:{}]\<close>.\<close>

definition looks_like_sha :: "string \<Rightarrow> bool" where
  "looks_like_sha spec = (6 \<le> length spec \<and> list_all hexdigit spec)"

definition disallow :: "string \<Rightarrow> bool" where
  "disallow spec = list_ex (\<lambda>c. c \<in> set ''@^~:{}'') spec"

text \<open>The chain of lines 249-254: who succeeds ends it.\<close>

definition probe_named_chain :: "'r git \<Rightarrow> string \<Rightarrow> string \<Rightarrow> 'r gitrun \<Rightarrow> bool \<times> 'r gitrun" where
  "probe_named_chain g godir spec s =
     (case try_spec g godir (''origin/'' @ spec) s of
        (True, s1) \<Rightarrow> (True, s1)
      | (False, s1) \<Rightarrow>
     (case try_spec g godir (''origin/go'' @ spec) s1 of
        (True, s2) \<Rightarrow> (True, s2)
      | (False, s2) \<Rightarrow>
     (case (if spec = ''tip'' then try_spec g godir ''origin/master'' s2 else (False, s2)) of
        (True, s3) \<Rightarrow> (True, s3)
      | (False, s3) \<Rightarrow>
     (case try_spec g godir (''refs/tags/'' @ spec) s3 of
        (True, s4) \<Rightarrow> (True, s4)
      | (False, s4) \<Rightarrow> try_spec g godir (''refs/tags/go'' @ spec) s4))))"

text \<open>
  The chain of lines 261-265: the status, the line printed (that of the last
  \<^verbatim>\<open>rev-parse\<close>, when the chain gets there) and the run.
\<close>

definition relative_spec :: "'r git \<Rightarrow> string \<Rightarrow> string \<Rightarrow> 'r gitrun \<Rightarrow> nat \<times> string \<times> 'r gitrun" where
  "relative_spec g godir spec s =
     (case try_spec g godir ''origin/master'' s of
        (False, s1) \<Rightarrow> (1, [], s1)
      | (True, s1) \<Rightarrow>
     (case git_run g godir (Rev_parse_object (spec @ ''^{object}'')) s1 of
        (False, _, s2) \<Rightarrow> (1, [], s2)
      | (True, obj, s2) \<Rightarrow>
     (case try_spec g godir obj s2 of
        (False, s3) \<Rightarrow> (1, [], s3)
      | (True, s3) \<Rightarrow>
     (case git_run g godir (Rev_parse_short obj) s3 of
        (ok, out, s4) \<Rightarrow> (if ok then 0 else 1, out, s4)))))"

text \<open>
  \<^verbatim>\<open>_checkout spec godir\<close>: how it ends, what it prints and the run.  An empty argument
  ends the shell at line 219.
\<close>

definition checkout :: "'r git \<Rightarrow> string \<Rightarrow> string \<Rightarrow> 'r gitrun \<Rightarrow> ending \<times> string \<times> 'r gitrun" where
  "checkout g spec godir s =
     (if spec = [] \<or> godir = [] then (Exited 1, [], s)
      else if looks_like_sha spec
      then (case git_run g godir (Reset_hard spec) s of
              (ok, _, s1) \<Rightarrow> (Returned (if ok then 0 else 1), [], s1))
      else
        (let probe_named = \<not> disallow spec;
             spec' = (if \<not> probe_named \<and> spec = ''@'' then ''HEAD'' else spec);
             (retval, s1) =
               (if probe_named
                then (case probe_named_chain g godir spec' s of
                        (ok, s') \<Rightarrow> (if ok then 0 else 1 :: nat, s'))
                else (1, s))
         in if retval \<noteq> 0
            then (case relative_spec g godir spec' s1 of
                    (rv, out, s2) \<Rightarrow> (Returned rv, out, s2))
            else (Returned 0, [], s1)))"

text \<open>
  The classification in the words of the specification: the candidate names in their
  order, and the search for the first of a list that resolves.
\<close>

definition candidates :: "string \<Rightarrow> string list" where
  "candidates ref =
     [''origin/'' @ ref, ''origin/go'' @ ref] @
     (if ref = ''tip'' then [''origin/master''] else []) @
     [''refs/tags/'' @ ref, ''refs/tags/go'' @ ref]"

fun first_resolving :: "'r git \<Rightarrow> string \<Rightarrow> string list \<Rightarrow> 'r gitrun \<Rightarrow> bool \<times> 'r gitrun" where
  "first_resolving g godir [] s = (False, s)"
| "first_resolving g godir (x # xs) s =
     (case try_spec g godir x s of
        (True, s') \<Rightarrow> (True, s')
      | (False, s') \<Rightarrow> first_resolving g godir xs s')"

section \<open>Fetching with a digest: \<^verbatim>\<open>_do_curls\<close> (lines 136-159)\<close>

text \<open>
  \<^verbatim>\<open>_sha256sum -c file\<close> is a parameter: from the files and the path of the check file
  it says whether the check passes.

  Lines 146-147 rewrite the digest file: \<^verbatim>\<open>$(cat file)\<close> is the text of the file without
  the newlines at its end, and two blanks and the path of the artifact are put behind.
\<close>

type_synonym sha256sum_c = "(string \<rightharpoonup> fnode) \<Rightarrow> string \<Rightarrow> bool"

definition command_subst :: "string list \<Rightarrow> string list" where
  "command_subst ls = rev (dropWhile (\<lambda>l. l = []) (rev ls))"

definition digest_lines :: "string list \<Rightarrow> string \<Rightarrow> string list" where
  "digest_lines ls f =
     (let t = command_subst ls
      in if t = [] then [''  '' @ f] else butlast t @ [last t @ ''  '' @ f])"

definition read_file :: "string \<Rightarrow> world \<Rightarrow> string list" where
  "read_file p w = (case files w p of None \<Rightarrow> [] | Some n \<Rightarrow> content n)"

definition install_digest :: "string \<Rightarrow> world \<Rightarrow> world" where
  "install_digest f w =
     mv (f @ ''.sha256.tmp'') (f @ ''.sha256'')
       (write_file (f @ ''.sha256.tmp'') (digest_lines (read_file (f @ ''.sha256'') w) f) w)"

text \<open>The loop of lines 143-158: the status and the world.\<close>

fun do_curls_loop :: "sha256sum_c \<Rightarrow> string \<Rightarrow> string list \<Rightarrow> world \<Rightarrow> nat \<times> world" where
  "do_curls_loop V f [] w = (1, rm_f f w)"
| "do_curls_loop V f (url # urls) w =
     (case do_curl url f w of
        (False, w1) \<Rightarrow> do_curls_loop V f urls w1
      | (True, w1) \<Rightarrow>
          (case do_curl (url @ ''.sha256'') (f @ ''.sha256'') w1 of
             (False, w2) \<Rightarrow> (0, w2)
           | (True, w2) \<Rightarrow>
               (let w3 = install_digest f w2
                in if \<not> V (files w3) (f @ ''.sha256'') then do_curls_loop V f urls w3
                   else (0, w3))))"

definition do_curls :: "sha256sum_c \<Rightarrow> string \<Rightarrow> string list \<Rightarrow> world \<Rightarrow> nat \<times> world" where
  "do_curls V f urls w =
     (if V (files w) (f @ ''.sha256'') then (0, w) else do_curls_loop V f urls w)"

text \<open>
  What one candidate asks of the network: the artifact, and its digest when the artifact
  came.
\<close>

definition requests :: "(string \<Rightarrow> reply) \<Rightarrow> string \<Rightarrow> string list" where
  "requests nt u = (case nt u of Served _ \<Rightarrow> [u, u @ ''.sha256''] | Failed _ \<Rightarrow> [u])"

text \<open>
  The world once the artifact and the digest of a candidate are fetched and the digest
  file is rewritten (lines 144-147).
\<close>

definition after_digest :: "string \<Rightarrow> string \<Rightarrow> world \<Rightarrow> world" where
  "after_digest f u w =
     install_digest f (snd (do_curl (u @ ''.sha256'') (f @ ''.sha256'') (snd (do_curl u f w))))"

text \<open>
  What holds of the loop when it ends with status \<open>st\<close> in the world \<open>w'\<close>: the
  requests made are those of the first \<open>k\<close> candidates, in their order; a failure has
  tried all and left no artifact; a success ends with a candidate whose artifact came.
\<close>

definition loop_post :: "string \<Rightarrow> string list \<Rightarrow> world \<Rightarrow> nat \<Rightarrow> world \<Rightarrow> bool" where
  "loop_post f urls w st w' =
     (net w' = net w \<and> (st = 0 \<or> st = 1) \<and>
      (\<exists>k\<le>length urls.
           fetched w' = fetched w @ concat (map (requests (net w)) (take k urls)) \<and>
           (st = 1 \<longrightarrow> k = length urls \<and> files w' f = None) \<and>
           (st = 0 \<longrightarrow> 1 \<le> k \<and> (\<exists>a. net w (urls ! (k - 1)) = Served a))))"

section \<open>Installed versions: \<^verbatim>\<open>_env\<close>, \<^verbatim>\<open>_try_existing\<close>, \<^verbatim>\<open>_wipe_version\<close> and the dispatch\<close>

definition dquote :: string where
  "dquote = [CHR 0x22]"

definition squote :: string where
  "squote = [CHR 0x27]"

fun contains :: "string \<Rightarrow> string \<Rightarrow> bool" where
  "contains p [] = (p = [])"
| "contains p (c # cs) = (starts_with p (c # cs) \<or> contains p cs)"

text \<open>
  The text a command substitution gives for the lines a command prints: the lines with
  newlines between them, none at the end.
\<close>

fun join_lines :: "string list \<Rightarrow> string" where
  "join_lines [] = []"
| "join_lines [l] = l"
| "join_lines (l # ls) = l @ [CHR 0x0A] @ join_lines ls"

definition command_text :: "string list \<Rightarrow> string" where
  "command_text ls = join_lines (command_subst ls)"

text \<open>
  The installed go tool is a parameter: whether \<^verbatim>\<open>go version\<close> runs in an install
  directory, and what \<^verbatim>\<open>go env VAR\<close> prints there.
\<close>

record gotool =
  go_version :: "string \<Rightarrow> bool"
  go_env :: "string \<Rightarrow> string \<Rightarrow> string"

definition is_executable :: "string \<Rightarrow> world \<Rightarrow> bool" where
  "is_executable p w = (case files w p of None \<Rightarrow> False | Some n \<Rightarrow> executable n)"

definition non_empty_file :: "string \<Rightarrow> world \<Rightarrow> bool" where
  "non_empty_file p w = (case files w p of None \<Rightarrow> False | Some n \<Rightarrow> content n \<noteq> [])"

text \<open>\<^verbatim>\<open>_env dir\<close> (lines 358-394): the status and the lines printed.\<close>

definition env :: "config \<Rightarrow> gotool \<Rightarrow> string \<Rightarrow> world \<Rightarrow> nat \<times> string list" where
  "env cfg go dir w =
     (if \<not> is_executable (dir @ ''/bin/go'') w then (1, [])
      else if \<not> go_version go dir then (1, [])
      else (0,
        [[]] @
        [if go_env go dir ''GOHOSTOS'' = GIMME_OS cfg then ''unset GOOS;''
         else ''export GOOS='' @ dquote @ GIMME_OS cfg @ dquote @ '';''] @
        [if go_env go dir ''GOHOSTARCH'' = GIMME_ARCH cfg then ''unset GOARCH;''
         else ''export GOARCH='' @ dquote @ GIMME_ARCH cfg @ dquote @ '';''] @
        [''export GOROOT='' @ squote @ dir @ squote @ '';''] @
        [''export PATH='' @ dquote @ dir @ ''/bin:${PATH}'' @ dquote @ '';''] @
        (if GIMME_SILENT_ENV cfg = [] then [''go version >&2;''] else []) @
        [[]]))"

text \<open>
  \<^verbatim>\<open>_try_existing\<close> (lines 414-450).  The sed of line 435 puts a semicolon behind every
  line that ends in another character; the sed of line 441 prints, for a line
  \<^verbatim>\<open>export PATH="D/bin:...\<close>, the line \<^verbatim>\<open>export GOROOT='D';\<close>, with the longest \<open>D\<close>.
\<close>

definition add_semicolon :: "string \<Rightarrow> string" where
  "add_semicolon l = (if l \<noteq> [] \<and> last l \<noteq> CHR '';'' then l @ '';'' else l)"

definition goroot_from_path :: "string \<Rightarrow> string option" where
  "goroot_from_path l =
     (if starts_with (''export PATH='' @ dquote) l
      then (let r = drop 13 l
            in case filter (\<lambda>k. take 5 (drop k r) = ''/bin:'') (rev [0..<length r]) of
                 [] \<Rightarrow> None
               | k # _ \<Rightarrow> Some (''export GOROOT='' @ squote @ take k r @ squote @ '';''))
      else None)"

definition existing_ver :: "config \<Rightarrow> string \<Rightarrow> string" where
  "existing_ver cfg kind =
     (if kind = ''binary''
      then GIMME_VERSION_PREFIX cfg @ ''/go'' @ GIMME_GO_VERSION cfg @ ''.'' @ GIMME_OS cfg
             @ ''.'' @ GIMME_ARCH cfg
      else GIMME_VERSION_PREFIX cfg @ ''/go'' @ GIMME_GO_VERSION cfg @ ''.src'')"

definition existing_env :: "config \<Rightarrow> string \<Rightarrow> string" where
  "existing_env cfg kind =
     (if kind = ''binary''
      then GIMME_ENV_PREFIX cfg @ ''/go'' @ GIMME_GO_VERSION cfg @ ''.'' @ GIMME_OS cfg
             @ ''.'' @ GIMME_ARCH cfg @ ''.env''
      else GIMME_ENV_PREFIX cfg @ ''/go'' @ GIMME_GO_VERSION cfg @ ''.src.env'')"

definition try_existing_kind :: "config \<Rightarrow> string \<Rightarrow> world \<Rightarrow> nat \<times> string list" where
  "try_existing_kind cfg kind w =
     (if is_executable (existing_ver cfg kind @ ''/bin/go'') w \<and>
         non_empty_file (existing_env cfg kind) w
      then (let ls = read_file (existing_env cfg kind) w
            in (0, map add_semicolon ls @
                   (if list_ex (starts_with ''unset GOROOT'') ls
                    then List.map_filter goroot_from_path ls @ [[]] else []) @
                   [''export GIMME_ENV='' @ squote @ existing_env cfg kind @ squote @ '';'']))
      else (1, []))"

definition try_existing :: "config \<Rightarrow> string \<Rightarrow> world \<Rightarrow> nat \<times> string list" where
  "try_existing cfg kind w =
     (if kind = ''binary'' \<or> kind = ''source'' then try_existing_kind cfg kind w
      else (case try_existing_kind cfg ''binary'' w of
              (0, out) \<Rightarrow> (0, out)
            | (_, out) \<Rightarrow>
                (case try_existing_kind cfg ''source'' w of (st, out') \<Rightarrow> (st, out @ out'))))"

text \<open>
  \<^verbatim>\<open>_wipe_version\<close> (lines 510-517).  The awk program prints, for every line that has
  \<^verbatim>\<open>GOROOT\<close> in it, the second of its fields between double quotes.
\<close>

definition awk_field2 :: "string \<Rightarrow> string" where
  "awk_field2 l = (case split_on (CHR 0x22) l of _ # f # _ \<Rightarrow> f | _ \<Rightarrow> [])"

definition awk_goroot :: "string list \<Rightarrow> string list" where
  "awk_goroot ls = map awk_field2 (filter (contains ''GOROOT'') ls)"

definition wipe_version :: "config \<Rightarrow> string \<Rightarrow> world \<Rightarrow> world" where
  "wipe_version cfg ver w =
     (let env_file = GIMME_ENV_PREFIX cfg @ ''/go'' @ ver @ ''.'' @ GIMME_OS cfg
                       @ ''.'' @ GIMME_ARCH cfg @ ''.env''
      in if non_empty_file env_file w
         then rm_f env_file (rm_rf (command_text (awk_goroot (read_file env_file w))) w)
         else w)"

text \<open>
  The dispatch of lines 935-949: the exit status of the script, the lines printed and
  the world.  \<^verbatim>\<open>_try_binary\<close>, \<^verbatim>\<open>_try_source\<close> and \<^verbatim>\<open>_try_git\<close> download, unpack and
  build; they are parameters here, each giving its success, its output and the world it
  leaves.  In a chain with \<^verbatim>\<open>||\<close> the next one runs when the one before has failed.
\<close>

type_synonym strategy = "world \<Rightarrow> bool \<times> string list \<times> world"

definition existing :: "config \<Rightarrow> string \<Rightarrow> strategy" where
  "existing cfg kind w = (case try_existing cfg kind w of (st, out) \<Rightarrow> (st = 0, out, w))"

definition or_else :: "strategy \<Rightarrow> strategy \<Rightarrow> strategy" where
  "or_else a b w =
     (case a w of
        (True, out, w1) \<Rightarrow> (True, out, w1)
      | (False, out, w1) \<Rightarrow> (case b w1 of (ok, out', w2) \<Rightarrow> (ok, out @ out', w2)))"

definition dispatch :: "config \<Rightarrow> strategy \<Rightarrow> strategy \<Rightarrow> strategy \<Rightarrow> world \<Rightarrow> nat \<times> string list \<times> world" where
  "dispatch cfg try_binary try_source try_git w =
     (if GIMME_TYPE cfg = ''binary''
      then (case or_else (existing cfg ''binary'') try_binary w of
              (ok, out, w') \<Rightarrow> (if ok then 0 else 1, out, w'))
      else if GIMME_TYPE cfg = ''source''
      then (case or_else (existing cfg ''source'') (or_else try_source try_git) w of
              (ok, out, w') \<Rightarrow> (if ok then 0 else 1, out, w'))
      else if GIMME_TYPE cfg = ''git''
      then (case try_git w of (ok, out, w') \<Rightarrow> (if ok then 0 else 1, out, w'))
      else if GIMME_TYPE cfg = ''auto''
      then (case or_else (existing cfg []) (or_else try_binary (or_else try_source try_git)) w of
              (ok, out, w') \<Rightarrow> (if ok then 0 else 1, out, w'))
      else (1, [], w))"

section \<open>Resolving a version: \<^verbatim>\<open>_resolve_version\<close> and the stable versions (lines 588-682)\<close>

text \<open>
  The branch for a specifier that ends in \<^verbatim>\<open>.x\<close> (lines 616-637).  The base must match
  \<^verbatim>\<open>^[0-9.]+$\<close>; the search pattern of line 625 is the base, taken literally, and
  possibly a dot and one or more digits and dots behind it.
\<close>

definition version_char :: "char \<Rightarrow> bool" where
  "version_char c = (digit c \<or> c = CHR ''.'')"

definition valid_base :: "string \<Rightarrow> bool" where
  "valid_base base = (base \<noteq> [] \<and> list_all version_char base)"

definition search_matches :: "string \<Rightarrow> string \<Rightarrow> bool" where
  "search_matches base ver =
     (ver = base \<or>
      (starts_with (base @ ''.'') ver \<and> length base + 1 < length ver \<and>
       list_all version_char (drop (length base + 1) ver)))"

text \<open>The loop of lines 627-630 over the lines of the catalog, with \<open>last\<close>.\<close>

fun scan_known :: "string \<Rightarrow> string list \<Rightarrow> string \<Rightarrow> string" where
  "scan_known base [] last_seen = last_seen"
| "scan_known base (l # ls) last_seen =
     (if search_matches base (read_r l) then scan_known base ls (read_r l)
      else scan_known base ls last_seen)"

definition resolve_x :: "config \<Rightarrow> string \<Rightarrow> world \<Rightarrow> nat \<times> string list \<times> world" where
  "resolve_x cfg spec w =
     (let base = take (length spec - 2) spec;
          (known, w1) = update_remote_known_list_if_needed cfg w
      in if \<not> valid_base base then (2, [], w1)
         else (let last_seen = scan_known base (read_file known w1) []
               in if last_seen \<noteq> [] then (0, [last_seen], w1) else (2, [spec], w1)))"

text \<open>
  The last branch (lines 605-614) prints the specifier and asks \<^verbatim>\<open>_assert_version_given\<close>,
  which may fetch and check out the git repository; it is a parameter here: from the
  specifier and the world, its success and the world it leaves.
\<close>

type_synonym assert_version_given = "string \<Rightarrow> world \<Rightarrow> bool \<times> world"

definition resolve_plain :: "config \<Rightarrow> assert_version_given \<Rightarrow> string \<Rightarrow> world \<Rightarrow> nat \<times> string list \<times> world" where
  "resolve_plain cfg avg spec w =
     (if ends_with ''.x'' spec then resolve_x cfg spec w
      else (case avg spec w of (ok, w1) \<Rightarrow> (if ok then 0 else 2, [spec], w1)))"

text \<open>
  The current stable version (lines 645-653 and 665-672).  \<open>errexit\<close> says whether
  \<^verbatim>\<open>set -e\<close> applies where the function runs (it does not inside a command
  substitution); with it a failing command ends the shell.  A non-zero status of curl,
  sed or cat is written 1.  The sed of line 670 takes \<^verbatim>\<open>go\<close> from the start of every
  line of the file, in place; its backup \<^verbatim>\<open>.old\<close> is removed on line 671.
\<close>

definition stable_url :: string where
  "stable_url = ''https://golang.org/VERSION?m=text''"

definition strip_go :: "string \<Rightarrow> string" where
  "strip_go l = (if starts_with ''go'' l then drop 2 l else l)"

definition update_stable :: "bool \<Rightarrow> string \<Rightarrow> world \<Rightarrow> ending \<times> world" where
  "update_stable errexit stable_file w =
     (case do_curl stable_url stable_file w of
        (ok, w1) \<Rightarrow>
          if \<not> ok \<and> errexit then (Exited 1, w1)
          else (case files w1 stable_file of
                  None \<Rightarrow>
                    if errexit then (Exited 1, w1)
                    else (Returned 0, rm_f (stable_file @ ''.old'') w1)
                | Some n \<Rightarrow>
                    (Returned 0,
                     rm_f (stable_file @ ''.old'')
                       (write_file stable_file (map strip_go (content n)) w1))))"

definition cat :: "bool \<Rightarrow> string \<Rightarrow> world \<Rightarrow> ending \<times> string list" where
  "cat errexit p w =
     (case files w p of
        None \<Rightarrow> (if errexit then Exited 1 else Returned 1, [])
      | Some n \<Rightarrow> (Returned 0, content n))"

definition get_curr_stable :: "bool \<Rightarrow> config \<Rightarrow> world \<Rightarrow> ending \<times> string list \<times> world" where
  "get_curr_stable errexit cfg w =
     (let stable_file = GIMME_VERSION_PREFIX cfg @ ''/stable'';
          (e, w1) = (if file_older_than_secs cfg stable_file 86400 w
                     then update_stable errexit stable_file w else (Returned 0, w))
      in case e of
           Exited st \<Rightarrow> (Exited st, [], w1)
         | Returned _ \<Rightarrow> (case cat errexit stable_file w1 of (e', out) \<Rightarrow> (e', out, w1)))"

text \<open>
  The awk program of lines 677-680, for each line: the fields are those between dots,
  the second is read as the number its leading digits spell and decremented, and the
  first field, the number and \<^verbatim>\<open>x\<close> are printed with dots between them.
\<close>

function show_nat :: "nat \<Rightarrow> string" where
  "show_nat n =
     (if n < 10 then [''0123456789'' ! n]
      else show_nat (n div 10) @ [''0123456789'' ! (n mod 10)])"
  by pat_completeness auto
termination
  by (relation "measure id") auto

definition show_int :: "int \<Rightarrow> string" where
  "show_int i = (if i < 0 then ''-'' @ show_nat (nat (- i)) else show_nat (nat i))"

definition awk_number :: "string \<Rightarrow> int" where
  "awk_number f = int (nat_of_digits (takeWhile digit f))"

definition awk_decrement :: "string \<Rightarrow> string" where
  "awk_decrement l =
     (let fs = split_on CHR ''.'' l;
          f1 = (case fs of f # _ \<Rightarrow> f | [] \<Rightarrow> []);
          f2 = (case fs of _ # f # _ \<Rightarrow> f | _ \<Rightarrow> [])
      in f1 @ ''.'' @ show_int (awk_number f2 - 1) @ ''.'' @ ''x'')"

text \<open>
  The old stable version (lines 655-663 and 674-682).  The pipeline of line 677 runs in
  a command substitution; with \<^verbatim>\<open>pipefail\<close> the assignment has the status of
  \<^verbatim>\<open>_get_curr_stable\<close>.  What awk prints is empty or ends in \<^verbatim>\<open>.x\<close>, so the call of
  \<^verbatim>\<open>_resolve_version\<close> on line 681 takes one of the last two branches; its output goes
  to the file.
\<close>

definition update_oldstable :: "bool \<Rightarrow> config \<Rightarrow> assert_version_given \<Rightarrow> string \<Rightarrow> world \<Rightarrow> ending \<times> world" where
  "update_oldstable errexit cfg avg oldstable_file w =
     (case get_curr_stable False cfg w of
        (e, ls, w1) \<Rightarrow>
          if e \<noteq> Returned 0 \<and> errexit then (Exited 1, w1)
          else (case resolve_plain cfg avg (command_text (map awk_decrement ls)) w1 of
                  (st, out, w2) \<Rightarrow>
                    (if st \<noteq> 0 \<and> errexit then Exited st else Returned st,
                     write_file oldstable_file out w2)))"

definition get_old_stable :: "bool \<Rightarrow> config \<Rightarrow> assert_version_given \<Rightarrow> world \<Rightarrow> ending \<times> string list \<times> world" where
  "get_old_stable errexit cfg avg w =
     (let oldstable_file = GIMME_VERSION_PREFIX cfg @ ''/oldstable'';
          (e, w1) = (if file_older_than_secs cfg oldstable_file 86400 w
                     then update_oldstable errexit cfg avg oldstable_file w else (Returned 0, w))
      in case e of
           Exited st \<Rightarrow> (Exited st, [], w1)
         | Returned _ \<Rightarrow> (case cat errexit oldstable_file w1 of (e', out) \<Rightarrow> (e', out, w1)))"

text \<open>\<^verbatim>\<open>_resolve_version\<close> (lines 588-638).\<close>

definition resolve_version :: "bool \<Rightarrow> config \<Rightarrow> assert_version_given \<Rightarrow> string \<Rightarrow> world \<Rightarrow> ending \<times> string list \<times> world" where
  "resolve_version errexit cfg avg spec w =
     (if spec = ''stable''
      then (case get_curr_stable errexit cfg w of
              (Exited st, out, w1) \<Rightarrow> (Exited st, out, w1)
            | (Returned _, out, w1) \<Rightarrow> (Returned 0, out, w1))
      else if spec = ''oldstable''
      then (case get_old_stable errexit cfg avg w of
              (Exited st, out, w1) \<Rightarrow> (Exited st, out, w1)
            | (Returned _, out, w1) \<Rightarrow> (Returned 0, out, w1))
      else if spec = ''tip'' then (Returned 0, [''tip''], w)
      else (case resolve_plain cfg avg spec w of (st, out, w1) \<Rightarrow> (Returned st, out, w1)))"

section \<open>Example settings and worlds\<close>

text \<open>
  The defaults of lines 780-792 on a linux/amd64 host with \<^verbatim>\<open>HOME=/home/u\<close> and a sort
  that has \<^verbatim>\<open>--version-sort\<close>.
\<close>

definition default_config :: config where
  "default_config =
     \<lparr>GIMME_VERSION_PREFIX = ''/home/u/.gimme/versions'',
      GIMME_ENV_PREFIX = ''/home/u/.gimme/envs'',
      GIMME_TMP = ''/tmp/gimme'',
      GIMME_OS = ''linux'', GIMME_ARCH = ''amd64'', GIMME_HOSTOS = ''linux'',
      GIMME_TYPE = ''auto'', GIMME_GO_VERSION = '''',
      GIMME_LIST_KNOWN = ''https://golang.org/dl'',
      GIMME_KNOWN_CACHE_MAX = 10800, GIMME_SILENT_ENV = '''',
      force_known_update = False, has_version_sort = True\<rparr>"

text \<open>
  A world whose only file is the catalog with versions 1.20 and 1.21, written at time
  \<open>t\<close>; the clock shows \<open>t'\<close> and every URL answers \<open>r\<close>.
\<close>

definition catalog_world :: "int \<Rightarrow> int \<Rightarrow> reply \<Rightarrow> world" where
  "catalog_world t t' r =
     \<lparr>files = [''/home/u/.gimme/versions/known-versions.txt'' \<mapsto>
                 \<lparr>content = [''1.20'', ''1.21''], mtime = t, executable = False\<rparr>],
      now = t', net = (\<lambda>u. r), fetched = []\<rparr>"

text \<open>
  A git for the examples: the names in \<open>known\<close> resolve, all to the commit
  \<^verbatim>\<open>0123456789abcdef0123456789abcdef01234567\<close>, and nothing else does; the repository is
  the commit checked out.
\<close>

definition example_commit :: string where
  "example_commit = ''0123456789abcdef0123456789abcdef01234567''"

definition example_git :: "string list \<Rightarrow> string git" where
  "example_git known godir c r =
     (case c of
        Reset_hard x \<Rightarrow> if x \<in> set known then (True, [], example_commit) else (False, [], r)
      | Try_spec x \<Rightarrow> if x \<in> set known then (True, [], example_commit) else (False, [], r)
      | Rev_parse_object x \<Rightarrow>
          if x \<in> set known then (True, example_commit, r) else (False, [], r)
      | Rev_parse_short x \<Rightarrow>
          if x = example_commit then (True, take 12 x, r) else (False, [], r))"

text \<open>
  A checker for the examples, with the first line of a file as its digest: the check
  file's first line is a digest, two blanks and a path, and the check passes when
  the file at the path starts with the digest.
\<close>

definition example_sha256sum_c :: sha256sum_c where
  "example_sha256sum_c fs cf =
     (case fs cf of
        None \<Rightarrow> False
      | Some n \<Rightarrow>
          (case content n of
             [] \<Rightarrow> False
           | l # _ \<Rightarrow>
               (let d = takeWhile (\<lambda>c. c \<noteq> CHR '' '') l; p = drop (length d + 2) l
                in case fs p of
                     None \<Rightarrow> False
                   | Some m \<Rightarrow> take 1 (content m) = [d])))"

text \<open>
  A network for the examples: the first mirror serves an artifact with the digest of
  another, the second an artifact with its own digest, the third an artifact and no
  digest.
\<close>

definition example_net :: "string \<Rightarrow> reply" where
  "example_net u =
     (if u = ''https://a/go.tar.gz'' then Served [''aaaa'', ''payload'']
      else if u = ''https://a/go.tar.gz.sha256'' then Served [''ffff'']
      else if u = ''https://b/go.tar.gz'' then Served [''bbbb'', ''payload'']
      else if u = ''https://b/go.tar.gz.sha256'' then Served [''bbbb'']
      else if u = ''https://c/go.tar.gz'' then Served [''cccc'', ''payload'']
      else Failed None)"

definition empty_world :: "(string \<Rightarrow> reply) \<Rightarrow> world" where
  "empty_world nt = \<lparr>files = Map.empty, now = 1700000000, net = nt, fetched = []\<rparr>"

text \<open>
  An installation for the examples: go 1.21.0 for linux/amd64 under the default
  directories, its binary executable and its descriptor as \<^verbatim>\<open>_env\<close> prints it through
  \<^verbatim>\<open>tee\<close> (line 468), with a go tool that runs and reports the host linux/amd64.
\<close>

definition example_go :: gotool where
  "example_go =
     \<lparr>go_version = (\<lambda>dir. True),
      go_env = (\<lambda>dir var. if var = ''GOHOSTOS'' then ''linux''
                           else if var = ''GOHOSTARCH'' then ''amd64'' else [])\<rparr>"

definition config_1_21 :: config where
  "config_1_21 = default_config\<lparr>GIMME_GO_VERSION := ''1.21.0''\<rparr>"

definition unpacked_world :: world where
  "unpacked_world =
     \<lparr>files = [existing_ver config_1_21 ''binary'' @ ''/bin/go'' \<mapsto>
                 \<lparr>content = [''ELF''], mtime = 1700000000, executable = True\<rparr>],
      now = 1700000000, net = (\<lambda>u. Failed None), fetched = []\<rparr>"

definition installed_world :: world where
  "installed_world =
     write_file (existing_env config_1_21 ''binary'')
       (snd (env config_1_21 example_go (existing_ver config_1_21 ''binary'') unpacked_world))
       unpacked_world"

text \<open>
  The same installation with a descriptor of an older gimme, whose lines have no
  semicolons.
\<close>

definition legacy_world :: world where
  "legacy_world =
     write_file (existing_env config_1_21 ''binary'')
       [''unset GOOS'', ''unset GOARCH'',
        ''export GOROOT='' @ squote @ existing_ver config_1_21 ''binary'' @ squote,
        ''export PATH='' @ dquote @ existing_ver config_1_21 ''binary'' @ ''/bin:${PATH}'' @ dquote,
        ''go version >&2'']
       unpacked_world"

text \<open>A strategy that must not run in an example: it fails after fetching.\<close>

definition fetching_strategy :: strategy where
  "fetching_strategy w = (False, [], w\<lparr>fetched := fetched w @ [''https://dl.google.com/go'']\<rparr>)"

text \<open>
  A world for the examples of the resolver: the catalog with five versions and the
  cached stable version 1.22.3, both written at time \<open>t\<close>, and the cached old stable
  version \<open>old\<close>, when there is one, written at time \<open>t\<close> too; the clock shows \<open>t'\<close> and
  the network is down.  No specifier is a git reference.
\<close>

definition resolver_world :: "int \<Rightarrow> int \<Rightarrow> string list option \<Rightarrow> world" where
  "resolver_world t t' old =
     \<lparr>files =
        (\<lambda>p. if p = ''/home/u/.gimme/versions/known-versions.txt''
              then Some \<lparr>content = [''1.20.14'', ''1.21.0'', ''1.21.5'', ''1.22.0'', ''1.22.3''],
                         mtime = t, executable = False\<rparr>
              else if p = ''/home/u/.gimme/versions/stable''
              then Some \<lparr>content = [''1.22.3''], mtime = t, executable = False\<rparr>
              else if p = ''/home/u/.gimme/versions/oldstable''
              then map_option (\<lambda>ls. \<lparr>content = ls, mtime = t, executable = False\<rparr>) old
              else None),
      now = t', net = (\<lambda>u. Failed None), fetched = []\<rparr>"

definition no_git_reference :: assert_version_given where
  "no_git_reference spec w = (False, w)"

text \<open>
  A world with no catalog yet, in which the download page lists the sources of
  1.9.10, 1.9.1 and 1.9.2, in this order.
\<close>

definition download_world :: world where
  "download_world =
     \<lparr>files = Map.empty, now = 1700000000,
      net = (\<lambda>u. if u = ''https://golang.org/dl''
                   then Served [''/dl/go1.9.10.src.tar.gz'', ''/dl/go1.9.1.src.tar.gz'',
                                ''/dl/go1.9.2.src.tar.gz'']
                   else Failed None),
      fetched = []\<rparr>"

text \<open>
  A world with no catalog yet, in which the download page lists the sources of
  1.20.14 and 1.21.0.
\<close>

definition release_world :: world where
  "release_world =
     \<lparr>files = Map.empty, now = 1700000000,
      net = (\<lambda>u. if u = ''https://golang.org/dl''
                   then Served [''/dl/go1.20.14.src.tar.gz'', ''/dl/go1.21.0.src.tar.gz'']
                   else Failed None),
      fetched = []\<rparr>"



section \<open>Properties of the version sort\<close>

lemma version_sort_Nil [simp]: "version_sort b [] = []"
  by (simp add: version_sort_def sort_version_sort_def version_sort_fallback_def
      sort_general_numeric_def)

text \<open>
  Claim C10 says that the two definitions of \<^verbatim>\<open>_version_sort\<close> order every list of
  dotted versions with components of at most three digits alike, 1.9.2 before 1.9.10.
  The fallback does not: the first sed command pads the 9 of 1.9.2 and 1.9.10 and takes
  the dot behind it, so the last component of 1.9.2 stays unpadded, the numeric sort
  sees 1.009 twice and the bytes put 1.009.010 before 1.009.2.  The last sed command
  also removes a component 0 altogether: 1.21.0 comes out as \<^verbatim>\<open>1.21.\<close>.
\<close>

theorem version_sort_fallback_differs:
  "version_sort True [''1.9.2'', ''1.9.10''] = [''1.9.2'', ''1.9.10''] \<and>
   version_sort False [''1.9.2'', ''1.9.10''] = [''1.9.10'', ''1.9.2''] \<and>
   map (sed_pad2 \<circ> sed_pad1) [''1.9.2'', ''1.9.10''] = [''1.009.2'', ''1.009.010''] \<and>
   version_sort True [''1.21.0''] = [''1.21.0''] \<and>
   version_sort False [''1.21.0''] = [''1.21.'']"
  by code_simp

section \<open>Properties of the catalog refresh\<close>

lemma known_list_new_neq: "known_list cfg @ ''.new'' \<noteq> known_list cfg"
  by simp

lemma known_dl_neq_list: "known_dl cfg \<noteq> known_list cfg"
proof
  assume "known_dl cfg = known_list cfg"
  then have "last (known_dl cfg) = last (known_list cfg)" by simp
  then show False by (simp add: known_dl_def known_list_def)
qed

lemma known_dl_neq_new: "known_dl cfg \<noteq> known_list cfg @ ''.new''"
proof
  assume "known_dl cfg = known_list cfg @ ''.new''"
  then have "last (known_dl cfg) = last (known_list cfg @ ''.new'')" by simp
  then show False by (simp add: known_dl_def known_list_def)
qed



lemma refresh_leaves_list:
  "\<exists>n. files (snd (update_remote_known_list_if_needed cfg w)) (known_list cfg) = Some n"
proof (cases "files w (known_list cfg) \<noteq> None \<and> \<not> force_known_update cfg \<and>
    \<not> file_older_than_secs cfg (known_list cfg) (GIMME_KNOWN_CACHE_MAX cfg) w")
  case True
  then show ?thesis
    by (auto simp: update_remote_known_list_if_needed_def Let_def)
next
  case False
  then show ?thesis
    using known_dl_neq_list [of cfg]
    by (auto simp: update_remote_known_list_if_needed_def Let_def split_beta
        write_file_def rm_f_def mv_def)
qed

text \<open>
  Claim C3 says that a failed fetch leaves the previous snapshot intact.  It does not:
  when a refresh is due and the download fails without leaving a file, the pipeline of
  lines 561-565 runs on no input, and lines 566-567 put the empty list in the
  snapshot's place.
\<close>

theorem failed_fetch_empties_snapshot:
  assumes "files w (known_list cfg) = None \<or> force_known_update cfg \<or>
           file_older_than_secs cfg (known_list cfg) (GIMME_KNOWN_CACHE_MAX cfg) w"
    and "net w (GIMME_LIST_KNOWN cfg) = Failed None"
    and "files w (known_dl cfg) = None"
  shows "map_option content
           (files (snd (update_remote_known_list_if_needed cfg w)) (known_list cfg)) = Some []"
  using assms known_dl_neq_list [of cfg] known_dl_neq_new [of cfg]
  by (auto simp: update_remote_known_list_if_needed_def Let_def do_curl_def parse_known_def
      write_file_def rm_f_def mv_def)

theorem failed_fetch_empties_snapshot_witness:
  "map_option content
     (files (catalog_world 1000 20000 (Failed None)) (known_list default_config))
     = Some [''1.20'', ''1.21''] \<and>
   map_option content
     (files (snd (update_remote_known_list_if_needed default_config
        (catalog_world 1000 20000 (Failed None)))) (known_list default_config)) = Some []"
  using failed_fetch_empties_snapshot
          [of "catalog_world 1000 20000 (Failed None)" default_config]
  by (simp add: catalog_world_def default_config_def known_list_def known_dl_def
      file_older_than_secs_def last_mod_timestamp_def stat_mtime_def)




section \<open>Properties of the checkout\<close>

lemma probe_named_chain_first_resolving:
  "probe_named_chain g godir spec s = first_resolving g godir (candidates spec) s"
  by (cases "spec = ''tip''")
     (simp_all add: probe_named_chain_def candidates_def split: prod.split bool.split)

lemma try_spec_trace:
  "snd (snd (try_spec g godir x s)) = snd s @ [Try_spec x]"
  by (simp add: try_spec_def git_run_def split: prod.splits)


lemma checkout_cases:
  assumes "spec \<noteq> []" and "godir \<noteq> []"
  shows "(looks_like_sha spec \<longrightarrow>
            (\<exists>st r. checkout g spec godir s = (Returned st, [], (r, snd s @ [Reset_hard spec])) \<and>
                    (st = 0) = fst (g godir (Reset_hard spec) (fst s)))) \<and>
         (\<not> looks_like_sha spec \<and> disallow spec \<longrightarrow>
            checkout g spec godir s =
              (case relative_spec g godir (if spec = ''@'' then ''HEAD'' else spec) s of
                 (rv, out, s') \<Rightarrow> (Returned rv, out, s'))) \<and>
         (\<not> looks_like_sha spec \<and> \<not> disallow spec \<longrightarrow>
            checkout g spec godir s =
              (case first_resolving g godir (candidates spec) s of
                 (True, s') \<Rightarrow> (Returned 0, [], s')
               | (False, s') \<Rightarrow>
                   (case relative_spec g godir spec s' of
                      (rv, out, s'') \<Rightarrow> (Returned rv, out, s''))))"
proof (intro conjI impI)
  assume "looks_like_sha spec"
  then show "\<exists>st r. checkout g spec godir s = (Returned st, [], (r, snd s @ [Reset_hard spec])) \<and>
      (st = 0) = fst (g godir (Reset_hard spec) (fst s))"
    using assms by (auto simp: checkout_def git_run_def split: prod.splits)
next
  assume "\<not> looks_like_sha spec \<and> disallow spec"
  then show "checkout g spec godir s =
      (case relative_spec g godir (if spec = ''@'' then ''HEAD'' else spec) s of
         (rv, out, s') \<Rightarrow> (Returned rv, out, s'))"
    using assms by (simp add: checkout_def)
next
  assume "\<not> looks_like_sha spec \<and> \<not> disallow spec"
  then show "checkout g spec godir s =
      (case first_resolving g godir (candidates spec) s of
         (True, s') \<Rightarrow> (Returned 0, [], s')
       | (False, s') \<Rightarrow>
           (case relative_spec g godir spec s' of
              (rv, out, s'') \<Rightarrow> (Returned rv, out, s'')))"
    using assms
    by (simp add: checkout_def probe_named_chain_first_resolving split: prod.splits bool.splits)
qed




lemma relative_spec_success:
  assumes "relative_spec g godir x s = (0, out, s')"
  shows "\<exists>obj r0 r1 r r'. g godir (Rev_parse_object (x @ ''^{object}'')) r0 = (True, obj, r1) \<and>
           g godir (Rev_parse_short obj) r = (True, out, r')"
proof -
  obtain ok1 s1 where t1: "try_spec g godir ''origin/master'' s = (ok1, s1)"
    by (cases "try_spec g godir ''origin/master'' s")
  obtain ok2 obj s2 where t2:
    "git_run g godir (Rev_parse_object (x @ ''^{object}'')) s1 = (ok2, obj, s2)"
    by (cases "git_run g godir (Rev_parse_object (x @ ''^{object}'')) s1")
  obtain ok3 s3 where t3: "try_spec g godir obj s2 = (ok3, s3)"
    by (cases "try_spec g godir obj s2")
  obtain ok4 o4 s4 where t4: "git_run g godir (Rev_parse_short obj) s3 = (ok4, o4, s4)"
    by (cases "git_run g godir (Rev_parse_short obj) s3")
  from assms t1 have ok1 by (cases ok1) (simp_all add: relative_spec_def)
  with assms t1 t2 have ok2 by (cases ok2) (simp_all add: relative_spec_def)
  with assms t1 t2 t3 \<open>ok1\<close> have ok3 by (cases ok3) (simp_all add: relative_spec_def)
  with assms t1 t2 t3 t4 \<open>ok1\<close> \<open>ok2\<close> have "ok4 \<and> o4 = out"
    by (cases ok4) (simp_all add: relative_spec_def)
  with t4 have a: "g godir (Rev_parse_short obj) (fst s3) = (True, out, fst s4)"
    by (auto simp: git_run_def split: prod.splits)
  from t2 \<open>ok2\<close> have b: "g godir (Rev_parse_object (x @ ''^{object}'')) (fst s1) = (True, obj, fst s2)"
    by (auto simp: git_run_def split: prod.splits)
  from a b show ?thesis by blast
qed


lemma checkout_reports_aux1:
  assumes "out = []" and "A"
  shows "(A \<longrightarrow> out = []) \<and> (\<not> A \<longrightarrow> E) \<and> (C \<longrightarrow> out = [] \<or> H)"
  using assms by simp

lemma checkout_reports_aux2:
  assumes "\<not> A" and "E" and "C \<Longrightarrow> H"
  shows "(A \<longrightarrow> out = []) \<and> (\<not> A \<longrightarrow> E) \<and> (C \<longrightarrow> out = [] \<or> H)"
  using assms by simp

text \<open>
  Claim C9 says that every successful checkout reports the short commit hash.  Only the
  relative path prints: the direct reset of line 228 and the probes of lines 249-253
  are quiet, and the caller (line 740) tests the output for being empty.  The claim as
  amended: a successful checkout prints nothing when the ref looks like a commit hash
  or a symbolic probe resolved; otherwise it prints what
  \<^verbatim>\<open>git rev-parse --verify -q --short=12\<close> printed for the object the ref (\<^verbatim>\<open>HEAD\<close> for
  \<^verbatim>\<open>@\<close>) was parsed to; so what it prints is empty or such an abbreviation, a hex string
  of at least 12 characters whenever git's abbreviations are.
\<close>

theorem checkout_reports:
  assumes "checkout g spec godir s = (Returned 0, out, s')"
  shows "(looks_like_sha spec \<or> (\<not> disallow spec \<and> fst (first_resolving g godir (candidates spec) s))
            \<longrightarrow> out = []) \<and>
         (\<not> (looks_like_sha spec \<or> (\<not> disallow spec \<and> fst (first_resolving g godir (candidates spec) s)))
            \<longrightarrow> (\<exists>obj r0 r1 r r'.
                   g godir (Rev_parse_object ((if spec = ''@'' then ''HEAD'' else spec) @ ''^{object}'')) r0
                     = (True, obj, r1) \<and>
                   g godir (Rev_parse_short obj) r = (True, out, r'))) \<and>
         ((\<forall>obj r. fst (g godir (Rev_parse_short obj) r) \<longrightarrow>
              12 \<le> length (fst (snd (g godir (Rev_parse_short obj) r))) \<and>
              list_all hexdigit (fst (snd (g godir (Rev_parse_short obj) r))))
            \<longrightarrow> out = [] \<or> (12 \<le> length out \<and> list_all hexdigit out))"
    (is "(?A \<longrightarrow> _) \<and> (_ \<longrightarrow> ?E) \<and> (?C \<longrightarrow> _ \<or> ?H)")
proof -
  have ne: "spec \<noteq> []" "godir \<noteq> []"
    using assms by (auto simp: checkout_def split: if_splits)
  note cls = checkout_cases [OF ne, of g s]
  note c1 = cls [THEN conjunct1]
  note c2 = cls [THEN conjunct2, THEN conjunct1]
  note c3 = cls [THEN conjunct2, THEN conjunct2]
  have rel: "?E \<and> (?C \<longrightarrow> ?H)"
    if r: "relative_spec g godir (if spec = ''@'' then ''HEAD'' else spec) s1 = (0, out, s')" for s1
  proof -
    from relative_spec_success [OF r] obtain obj r0 r1 r r' where
      a: "g godir (Rev_parse_object ((if spec = ''@'' then ''HEAD'' else spec) @ ''^{object}'')) r0
            = (True, obj, r1)"
      and b: "g godir (Rev_parse_short obj) r = (True, out, r')"
      by blast
    from a b have ?E by blast
    moreover have ?H if c: ?C
    proof -
      from b have "fst (g godir (Rev_parse_short obj) r)" by simp
      with c have "12 \<le> length (fst (snd (g godir (Rev_parse_short obj) r))) \<and>
        list_all hexdigit (fst (snd (g godir (Rev_parse_short obj) r)))" by blast
      with b show ?thesis by simp
    qed
    ultimately show ?thesis by blast
  qed
  show ?thesis
  proof (cases "looks_like_sha spec")
    case True
    with c1 obtain st r where "checkout g spec godir s = (Returned st, [], (r, snd s @ [Reset_hard spec]))"
      by blast
    with assms have "out = []" by simp
    then show ?thesis using True by (intro checkout_reports_aux1) simp_all
  next
    case nsha: False
    show ?thesis
    proof (cases "disallow spec")
      case True
      obtain rv ou s'' where r: "relative_spec g godir (if spec = ''@'' then ''HEAD'' else spec) s = (rv, ou, s'')"
        by (cases "relative_spec g godir (if spec = ''@'' then ''HEAD'' else spec) s")
      from c2 nsha True have "checkout g spec godir s =
          (case relative_spec g godir (if spec = ''@'' then ''HEAD'' else spec) s of
             (rv, out, s') \<Rightarrow> (Returned rv, out, s'))" by blast
      with r assms have "rv = 0 \<and> ou = out \<and> s'' = s'" by simp
      with r have "relative_spec g godir (if spec = ''@'' then ''HEAD'' else spec) s = (0, out, s')"
        by simp
      from rel [OF this] have e: ?E and h: "?C \<Longrightarrow> ?H" by blast+
      have na: "\<not> ?A" using nsha True by simp
      show ?thesis by (rule checkout_reports_aux2 [OF na e h])
    next
      case False
      obtain ok s1 where f: "first_resolving g godir (candidates spec) s = (ok, s1)"
        by (cases "first_resolving g godir (candidates spec) s")
      from c3 nsha False have ck: "checkout g spec godir s =
          (case first_resolving g godir (candidates spec) s of
             (True, s') \<Rightarrow> (Returned 0, [], s')
           | (False, s') \<Rightarrow>
               (case relative_spec g godir spec s' of
                  (rv, out, s'') \<Rightarrow> (Returned rv, out, s'')))" by blast
      show ?thesis
      proof (cases ok)
        case True
        with ck f assms have "out = []" by simp
        moreover have ?A using False True f by simp
        ultimately show ?thesis by (intro checkout_reports_aux1)
      next
        case nores: False
        obtain rv ou s'' where r: "relative_spec g godir spec s1 = (rv, ou, s'')"
          by (cases "relative_spec g godir spec s1")
        with ck f nores assms have "rv = 0 \<and> ou = out \<and> s'' = s'" by simp
        moreover have "spec \<noteq> ''@''"
          using False by (auto simp: disallow_def)
        ultimately have "relative_spec g godir (if spec = ''@'' then ''HEAD'' else spec) s1 = (0, out, s')"
          using r by simp
        from rel [OF this] have e: ?E and h: "?C \<Longrightarrow> ?H" by blast+
        have na: "\<not> ?A" using nsha nores f by simp
        show ?thesis by (rule checkout_reports_aux2 [OF na e h])
      qed
    qed
  qed
qed

theorem checkout_reports_witness:
  "checkout (example_git [''origin/master'', ''HEAD~1^{object}'', example_commit]) ''HEAD~1'' ''/v/go'' (''c0'', [])
     = (Returned 0, ''0123456789ab'',
        (example_commit, [Try_spec ''origin/master'', Rev_parse_object ''HEAD~1^{object}'',
           Try_spec example_commit, Rev_parse_short example_commit])) \<and>
   12 \<le> length ''0123456789ab'' \<and> list_all hexdigit ''0123456789ab''"
proof -
  let ?g = "example_git [''origin/master'', ''HEAD~1^{object}'', example_commit]"
  have run: "checkout ?g ''HEAD~1'' ''/v/go'' (''c0'', [])
     = (Returned 0, ''0123456789ab'',
        (example_commit, [Try_spec ''origin/master'', Rev_parse_object ''HEAD~1^{object}'',
           Try_spec example_commit, Rev_parse_short example_commit]))"
    by (simp add: checkout_def looks_like_sha_def disallow_def hexdigit_def relative_spec_def
        try_spec_def git_run_def example_git_def example_commit_def)
  have contract: "\<forall>obj r. fst (?g ''/v/go'' (Rev_parse_short obj) r) \<longrightarrow>
      12 \<le> length (fst (snd (?g ''/v/go'' (Rev_parse_short obj) r))) \<and>
      list_all hexdigit (fst (snd (?g ''/v/go'' (Rev_parse_short obj) r)))"
    by (simp add: example_git_def example_commit_def hexdigit_def)
  from checkout_reports [OF run] contract
  have "''0123456789ab'' = [] \<or> (12 \<le> length ''0123456789ab'' \<and> list_all hexdigit ''0123456789ab'')"
    by blast
  with run show ?thesis by simp
qed

theorem checkout_silent_counterexample:
  "checkout (example_git [''a1b2c3d4e5f6'']) ''a1b2c3d4e5f6'' ''/v/go'' (''c0'', [])
     = (Returned 0, [], (example_commit, [Reset_hard ''a1b2c3d4e5f6''])) \<and>
   checkout (example_git [''origin/release-branch.go1.20'']) ''release-branch.go1.20'' ''/v/go'' (''c0'', [])
     = (Returned 0, [], (example_commit, [Try_spec ''origin/release-branch.go1.20''])) \<and>
   \<not> 6 \<le> length (fst (snd (checkout (example_git [''a1b2c3d4e5f6'']) ''a1b2c3d4e5f6'' ''/v/go'' (''c0'', []))))"
  by (simp add: checkout_def looks_like_sha_def disallow_def hexdigit_def probe_named_chain_def
      try_spec_def git_run_def example_git_def)

section \<open>Properties of the verified fetch\<close>

lemma do_curl_net [simp]: "net (snd (do_curl u p w)) = net w"
  by (simp add: do_curl_def write_file_def Let_def split: reply.splits option.splits)

lemma do_curl_fetched [simp]: "fetched (snd (do_curl u p w)) = fetched w @ [u]"
  by (simp add: do_curl_def write_file_def Let_def split: reply.splits option.splits)

lemma do_curl_ok: "fst (do_curl u p w) = (\<exists>c. net w u = Served c)"
  by (simp add: do_curl_def Let_def split: reply.splits option.splits)

lemma install_digest_net [simp]: "net (install_digest f w) = net w"
  by (simp add: install_digest_def mv_def write_file_def split: option.splits)

lemma install_digest_fetched [simp]: "fetched (install_digest f w) = fetched w"
  by (simp add: install_digest_def mv_def write_file_def split: option.splits)

lemma requests_served: "nt u = Served c \<Longrightarrow> requests nt u = [u, u @ ''.sha256'']"
  by (simp add: requests_def)

lemma requests_failed: "nt u = Failed x \<Longrightarrow> requests nt u = [u]"
  by (simp add: requests_def)

lemma loop_post_step:
  assumes "loop_post f us w1 st w'" and "net w1 = net w"
    and "fetched w1 = fetched w @ requests (net w) u"
  shows "loop_post f (u # us) w st w'"
proof -
  note F = assms(1) [unfolded loop_post_def]
  note n = F [THEN conjunct1] and s = F [THEN conjunct2, THEN conjunct1]
  from F [THEN conjunct2, THEN conjunct2] obtain k where K:
    "k \<le> length us \<and>
     fetched w' = fetched w1 @ concat (map (requests (net w1)) (take k us)) \<and>
     (st = 1 \<longrightarrow> k = length us \<and> files w' f = None) \<and>
     (st = 0 \<longrightarrow> 1 \<le> k \<and> (\<exists>a. net w1 (us ! (k - 1)) = Served a))" ..
  note k1 = K [THEN conjunct1] and k2 = K [THEN conjunct2, THEN conjunct1]
    and k3 = K [THEN conjunct2, THEN conjunct2, THEN conjunct1]
    and k4 = K [THEN conjunct2, THEN conjunct2, THEN conjunct2]
  have a: "Suc k \<le> length (u # us)" using k1 by simp
  have b: "fetched w' = fetched w @ concat (map (requests (net w)) (take (Suc k) (u # us)))"
    using k2 assms(2,3) by simp
  have c: "st = 1 \<longrightarrow> Suc k = length (u # us) \<and> files w' f = None"
    using k3 by simp
  have d: "st = 0 \<longrightarrow> 1 \<le> Suc k \<and> (\<exists>a. net w ((u # us) ! (Suc k - 1)) = Served a)"
  proof
    assume "st = 0"
    with k4 have "1 \<le> k \<and> (\<exists>a. net w1 (us ! (k - 1)) = Served a)" by (rule mp)
    then obtain a where k: "1 \<le> k" and a: "net w1 (us ! (k - 1)) = Served a"
      by (elim conjE exE)
    from k obtain j where j: "k = Suc j" by (cases k) simp_all
    from a j have "net w ((u # us) ! (Suc k - 1)) = Served a"
      using assms(2) by simp
    then show "1 \<le> Suc k \<and> (\<exists>a. net w ((u # us) ! (Suc k - 1)) = Served a)"
      by (intro conjI exI) simp_all
  qed
  have e: "Suc k \<le> length (u # us) \<and>
       fetched w' = fetched w @ concat (map (requests (net w)) (take (Suc k) (u # us))) \<and>
       (st = 1 \<longrightarrow> Suc k = length (u # us) \<and> files w' f = None) \<and>
       (st = 0 \<longrightarrow> 1 \<le> Suc k \<and> (\<exists>a. net w ((u # us) ! (Suc k - 1)) = Served a))"
    by (intro conjI a b c d)
  show ?thesis
    unfolding loop_post_def
  proof (intro conjI)
    show "net w' = net w" using n assms(2) by simp
    show "st = 0 \<or> st = 1" by (rule s)
    show "\<exists>k\<le>length (u # us).
       fetched w' = fetched w @ concat (map (requests (net w)) (take k (u # us))) \<and>
       (st = 1 \<longrightarrow> k = length (u # us) \<and> files w' f = None) \<and>
       (st = 0 \<longrightarrow> 1 \<le> k \<and> (\<exists>a. net w ((u # us) ! (k - 1)) = Served a))"
      by (rule exI [of _ "Suc k"]) (rule e)
  qed
qed

lemma loop_post_accept:
  assumes "net w' = net w" and "fetched w' = fetched w @ requests (net w) u"
    and "net w u = Served a"
  shows "loop_post f (u # us) w 0 w'"
  unfolding loop_post_def
proof (intro conjI)
  show "net w' = net w" by (rule assms(1))
  show "(0::nat) = 0 \<or> (0::nat) = 1" by simp
  have "1 \<le> length (u # us) \<and>
       fetched w' = fetched w @ concat (map (requests (net w)) (take 1 (u # us))) \<and>
       ((0::nat) = 1 \<longrightarrow> 1 = length (u # us) \<and> files w' f = None) \<and>
       ((0::nat) = 0 \<longrightarrow> (1::nat) \<le> 1 \<and> (\<exists>a. net w ((u # us) ! (1 - 1)) = Served a))"
    using assms by simp
  then show "\<exists>k\<le>length (u # us).
       fetched w' = fetched w @ concat (map (requests (net w)) (take k (u # us))) \<and>
       ((0::nat) = 1 \<longrightarrow> k = length (u # us) \<and> files w' f = None) \<and>
       ((0::nat) = 0 \<longrightarrow> 1 \<le> k \<and> (\<exists>a. net w ((u # us) ! (k - 1)) = Served a))"
    by (rule exI [of _ 1])
qed

lemma do_curls_loop_post:
  "do_curls_loop V f urls w = (st, w') \<Longrightarrow> loop_post f urls w st w'"
proof (induction urls arbitrary: w)
  case Nil
  then have "st = 1" "w' = rm_f f w" by simp_all
  then show ?case by (simp add: loop_post_def rm_f_def)
next
  case (Cons u us)
  obtain ok1 w1 where d1: "do_curl u f w = (ok1, w1)" by (cases "do_curl u f w")
  have n1: "net w1 = net w" and f1: "fetched w1 = fetched w @ [u]"
    using do_curl_net [of u f w] do_curl_fetched [of u f w] d1 by simp_all
  have o1: "ok1 = (\<exists>c. net w u = Served c)" using do_curl_ok [of u f w] d1 by simp
  show ?case
  proof (cases ok1)
    case False
    with Cons.prems d1 have "do_curls_loop V f us w1 = (st, w')" by simp
    from Cons.IH [OF this] have "loop_post f us w1 st w'" .
    moreover from False o1 obtain x where "net w u = Failed x" by (cases "net w u") auto
    then have "requests (net w) u = [u]" by (rule requests_failed)
    ultimately show ?thesis using loop_post_step n1 f1 by simp
  next
    case True
    with o1 obtain a where a: "net w u = Served a" by blast
    then have rq: "requests (net w) u = [u, u @ ''.sha256'']" by (rule requests_served)
    obtain ok2 w2 where d2: "do_curl (u @ ''.sha256'') (f @ ''.sha256'') w1 = (ok2, w2)"
      by (cases "do_curl (u @ ''.sha256'') (f @ ''.sha256'') w1")
    have n2: "net w2 = net w" and f2: "fetched w2 = fetched w @ [u, u @ ''.sha256'']"
      using do_curl_net [of "u @ ''.sha256''" "f @ ''.sha256''" w1]
        do_curl_fetched [of "u @ ''.sha256''" "f @ ''.sha256''" w1] d2 n1 f1 by simp_all
    show ?thesis
    proof (cases ok2)
      case False
      with Cons.prems d1 d2 True have "st = 0" "w' = w2" by simp_all
      then show ?thesis using loop_post_accept [OF n2 _ a] f2 rq by simp
    next
      case ok2: True
      let ?w3 = "install_digest f w2"
      have n3: "net ?w3 = net w" and f3: "fetched ?w3 = fetched w @ [u, u @ ''.sha256'']"
        using n2 f2 by simp_all
      show ?thesis
      proof (cases "V (files ?w3) (f @ ''.sha256'')")
        case True
        with Cons.prems d1 d2 \<open>ok1\<close> ok2 have "st = 0" "w' = ?w3" by (simp_all add: Let_def)
        then show ?thesis using loop_post_accept [OF n3 _ a] f3 rq by simp
      next
        case False
        with Cons.prems d1 d2 \<open>ok1\<close> ok2 have "do_curls_loop V f us ?w3 = (st, w')"
          by (simp add: Let_def)
        from Cons.IH [OF this] have "loop_post f us ?w3 st w'" .
        then show ?thesis using loop_post_step n3 f3 rq by simp
      qed
    qed
  qed
qed

lemma sha256_path_neq: "f \<noteq> f @ ''.sha256''"
  by simp

lemma do_curl_served:
  "net w u = Served a \<Longrightarrow> do_curl u p w = (True, write_file p a (w\<lparr>fetched := fetched w @ [u]\<rparr>))"
  by (simp add: do_curl_def Let_def)

lemma do_curl_other_file:
  "q \<noteq> p \<Longrightarrow> files (snd (do_curl u p w)) q = files w q"
  by (simp add: do_curl_def Let_def write_file_def split: reply.splits option.splits)

lemma do_curl_pair:
  "do_curl u p w = ((\<exists>c. net w u = Served c), snd (do_curl u p w))"
  using do_curl_ok [of u p w] by (cases "do_curl u p w") simp

lemma do_curl_served_ex:
  assumes "net w u = Served a"
  obtains w1 where "do_curl u p w = (True, w1)"
  using assms do_curl_pair [of u p w] by simp

lemma do_curl_failed_ex:
  assumes "net w u = Failed x"
  obtains w1 where "do_curl u p w = (False, w1)"
  using assms do_curl_pair [of u p w] by simp

lemma loop_served_served:
  assumes "net w u = Served a" and "net w (u @ ''.sha256'') = Served d"
  shows "do_curls_loop V f (u # us) w =
           (if \<not> V (files (after_digest f u w)) (f @ ''.sha256'')
            then do_curls_loop V f us (after_digest f u w)
            else (0, after_digest f u w))"
proof -
  from assms(1) obtain w1 where d1: "do_curl u f w = (True, w1)"
    by (rule do_curl_served_ex)
  then have "w1 = snd (do_curl u f w)" by simp
  then have "net w1 (u @ ''.sha256'') = Served d" using assms(2) by simp
  then obtain w2 where d2: "do_curl (u @ ''.sha256'') (f @ ''.sha256'') w1 = (True, w2)"
    by (rule do_curl_served_ex)
  have "after_digest f u w = install_digest f w2"
    using d1 d2 by (simp add: after_digest_def)
  then show ?thesis
    using d1 d2 by (simp add: Let_def)
qed

lemma loop_served_failed:
  assumes "net w u = Served a" and "net w (u @ ''.sha256'') = Failed x"
  shows "\<exists>w2. do_curls_loop V f (u # us) w = (0, w2) \<and>
            fetched w2 = fetched w @ [u, u @ ''.sha256''] \<and>
            map_option content (files w2 f) = Some a"
proof -
  from assms(1) obtain w1 where d1: "do_curl u f w = (True, w1)"
    by (rule do_curl_served_ex)
  then have w1: "w1 = snd (do_curl u f w)" by simp
  then have "net w1 (u @ ''.sha256'') = Failed x" using assms(2) by simp
  then obtain w2 where d2: "do_curl (u @ ''.sha256'') (f @ ''.sha256'') w1 = (False, w2)"
    by (rule do_curl_failed_ex)
  then have w2: "w2 = snd (do_curl (u @ ''.sha256'') (f @ ''.sha256'') w1)" by simp
  have 1: "do_curls_loop V f (u # us) w = (0, w2)"
    using d1 d2 by simp
  have 2: "fetched w2 = fetched w @ [u, u @ ''.sha256'']"
    unfolding w2 w1 by simp
  have "files w2 f = files w1 f"
    unfolding w2 by (rule do_curl_other_file) simp
  also have "map_option content (files w1 f) = Some a"
    unfolding w1 using assms(1) by (simp add: do_curl_served write_file_def)
  finally have 3: "map_option content (files w2 f) = Some a" .
  from 1 2 3 show ?thesis by blast
qed

lemma loop_failed:
  assumes "net w u = Failed x"
  shows "do_curls_loop V f (u # us) w = do_curls_loop V f us (snd (do_curl u f w))"
proof -
  from assms obtain w1 where d1: "do_curl u f w = (False, w1)"
    by (rule do_curl_failed_ex)
  then show ?thesis by simp
qed

text \<open>
  Claim C5.  When no verified artifact is in place already (line 140), the candidates
  are asked in their order, the artifact first and its digest when the artifact came,
  and nothing is asked behind the candidate that decides; a failure has asked all and
  leaves no artifact file.  A candidate whose digest came and does not verify is left
  for the next (the loop goes on as if on the rest); one whose digest verifies, and
  one whose digest does not come, ends the loop with status 0; one whose artifact does
  not come is left for the next.
\<close>

theorem do_curls_candidates:
  "(do_curls V f urls w = (st, w') \<longrightarrow>
      (st = 0 \<or> st = 1) \<and>
      (\<exists>k\<le>length urls.
         fetched w' = fetched w @ concat (map (requests (net w)) (take k urls)) \<and>
         (st = 1 \<longrightarrow> \<not> V (files w) (f @ ''.sha256'') \<and> k = length urls \<and> files w' f = None) \<and>
         (st = 0 \<and> \<not> V (files w) (f @ ''.sha256'') \<longrightarrow>
            1 \<le> k \<and> (\<exists>a. net w (urls ! (k - 1)) = Served a)))) \<and>
   (net w u = Served a \<and> net w (u @ ''.sha256'') = Served d \<and>
    \<not> V (files (after_digest f u w)) (f @ ''.sha256'') \<longrightarrow>
      do_curls_loop V f (u # us) w = do_curls_loop V f us (after_digest f u w)) \<and>
   (net w u = Served a \<and> net w (u @ ''.sha256'') = Served d \<and>
    V (files (after_digest f u w)) (f @ ''.sha256'') \<longrightarrow>
      do_curls_loop V f (u # us) w = (0, after_digest f u w) \<and>
      fetched (after_digest f u w) = fetched w @ [u, u @ ''.sha256'']) \<and>
   (net w u = Served a \<and> net w (u @ ''.sha256'') = Failed x \<longrightarrow>
      (\<exists>w2. do_curls_loop V f (u # us) w = (0, w2) \<and>
            fetched w2 = fetched w @ [u, u @ ''.sha256''] \<and>
            map_option content (files w2 f) = Some a)) \<and>
   (net w u = Failed x \<longrightarrow>
      do_curls_loop V f (u # us) w = do_curls_loop V f us (snd (do_curl u f w))) \<and>
   do_curls_loop V f [] w = (1, rm_f f w)"
proof (intro conjI impI)
  assume r: "do_curls V f urls w = (st, w')"
  show "st = 0 \<or> st = 1"
  proof (cases "V (files w) (f @ ''.sha256'')")
    case True
    with r show ?thesis by (simp add: do_curls_def)
  next
    case False
    with r have "do_curls_loop V f urls w = (st, w')" by (simp add: do_curls_def)
    from do_curls_loop_post [OF this] show ?thesis by (simp add: loop_post_def)
  qed
  show "\<exists>k\<le>length urls.
         fetched w' = fetched w @ concat (map (requests (net w)) (take k urls)) \<and>
         (st = 1 \<longrightarrow> \<not> V (files w) (f @ ''.sha256'') \<and> k = length urls \<and> files w' f = None) \<and>
         (st = 0 \<and> \<not> V (files w) (f @ ''.sha256'') \<longrightarrow>
            1 \<le> k \<and> (\<exists>a. net w (urls ! (k - 1)) = Served a))"
  proof (cases "V (files w) (f @ ''.sha256'')")
    case True
    with r have "st = 0" "w' = w" by (simp_all add: do_curls_def)
    with True show ?thesis by (intro exI [of _ 0]) simp
  next
    case False
    with r have "do_curls_loop V f urls w = (st, w')" by (simp add: do_curls_def)
    from do_curls_loop_post [OF this, unfolded loop_post_def, THEN conjunct2, THEN conjunct2]
    obtain k where K: "k \<le> length urls \<and>
      fetched w' = fetched w @ concat (map (requests (net w)) (take k urls)) \<and>
      (st = 1 \<longrightarrow> k = length urls \<and> files w' f = None) \<and>
      (st = 0 \<longrightarrow> 1 \<le> k \<and> (\<exists>a. net w (urls ! (k - 1)) = Served a))" ..
    with False show ?thesis by (intro exI [of _ k]) simp
  qed
next
  assume h: "net w u = Served a \<and> net w (u @ ''.sha256'') = Served d \<and>
    \<not> V (files (after_digest f u w)) (f @ ''.sha256'')"
  then show "do_curls_loop V f (u # us) w = do_curls_loop V f us (after_digest f u w)"
    using loop_served_served [of w u a d V f us] by simp
next
  assume h: "net w u = Served a \<and> net w (u @ ''.sha256'') = Served d \<and>
    V (files (after_digest f u w)) (f @ ''.sha256'')"
  then show "do_curls_loop V f (u # us) w = (0, after_digest f u w)"
    using loop_served_served [of w u a d V f us] by simp
  show "fetched (after_digest f u w) = fetched w @ [u, u @ ''.sha256'']"
    by (simp add: after_digest_def)
next
  assume h: "net w u = Served a \<and> net w (u @ ''.sha256'') = Failed x"
  then show "\<exists>w2. do_curls_loop V f (u # us) w = (0, w2) \<and>
            fetched w2 = fetched w @ [u, u @ ''.sha256''] \<and>
            map_option content (files w2 f) = Some a"
    using loop_served_failed [of w u a x V f us] by simp
next
  assume "net w u = Failed x"
  then show "do_curls_loop V f (u # us) w = do_curls_loop V f us (snd (do_curl u f w))"
    by (rule loop_failed)
next
  show "do_curls_loop V f [] w = (1, rm_f f w)" by simp
qed

theorem do_curls_candidates_witness:
  "do_curls_loop example_sha256sum_c ''/tmp/gimme/go.tar.gz''
     [''https://a/go.tar.gz'', ''https://b/go.tar.gz'', ''https://c/go.tar.gz'']
     (empty_world example_net)
   = do_curls_loop example_sha256sum_c ''/tmp/gimme/go.tar.gz''
       [''https://b/go.tar.gz'', ''https://c/go.tar.gz'']
       (after_digest ''/tmp/gimme/go.tar.gz'' ''https://a/go.tar.gz'' (empty_world example_net)) \<and>
   fst (do_curls example_sha256sum_c ''/tmp/gimme/go.tar.gz''
     [''https://a/go.tar.gz'', ''https://b/go.tar.gz'', ''https://c/go.tar.gz'']
     (empty_world example_net)) = 0 \<and>
   fetched (snd (do_curls example_sha256sum_c ''/tmp/gimme/go.tar.gz''
     [''https://a/go.tar.gz'', ''https://b/go.tar.gz'', ''https://c/go.tar.gz'']
     (empty_world example_net)))
   = [''https://a/go.tar.gz'', ''https://a/go.tar.gz.sha256'',
      ''https://b/go.tar.gz'', ''https://b/go.tar.gz.sha256''] \<and>
   map_option content (files (snd (do_curls example_sha256sum_c ''/tmp/gimme/go.tar.gz''
     [''https://a/go.tar.gz'', ''https://b/go.tar.gz'', ''https://c/go.tar.gz'']
     (empty_world example_net))) ''/tmp/gimme/go.tar.gz'') = Some [''bbbb'', ''payload''] \<and>
   fst (do_curls example_sha256sum_c ''/tmp/gimme/go.tar.gz'' [''https://c/go.tar.gz'']
     (empty_world example_net)) = 0 \<and>
   fst (do_curls example_sha256sum_c ''/tmp/gimme/go.tar.gz'' [''https://d/go.tar.gz'']
     (empty_world example_net)) = 1 \<and>
   files (snd (do_curls example_sha256sum_c ''/tmp/gimme/go.tar.gz'' [''https://d/go.tar.gz'']
     (empty_world example_net))) ''/tmp/gimme/go.tar.gz'' = None"
proof -
  let ?V = example_sha256sum_c and ?f = "''/tmp/gimme/go.tar.gz''" and ?w = "empty_world example_net"
  note defs = do_curls_def do_curl_def install_digest_def after_digest_def read_file_def
    digest_lines_def command_subst_def write_file_def mv_def rm_f_def example_sha256sum_c_def
    example_net_def empty_world_def Let_def
  have h: "net ?w ''https://a/go.tar.gz'' = Served [''aaaa'', ''payload''] \<and>
    net ?w (''https://a/go.tar.gz'' @ ''.sha256'') = Served [''ffff''] \<and>
    \<not> ?V (files (after_digest ?f ''https://a/go.tar.gz'' ?w)) (?f @ ''.sha256'')"
    by (simp add: defs)
  have 1: "do_curls_loop ?V ?f [''https://a/go.tar.gz'', ''https://b/go.tar.gz'', ''https://c/go.tar.gz''] ?w
    = do_curls_loop ?V ?f [''https://b/go.tar.gz'', ''https://c/go.tar.gz'']
        (after_digest ?f ''https://a/go.tar.gz'' ?w)"
    using do_curls_candidates [of ?V ?f _ ?w _ _ "''https://a/go.tar.gz''"
        "[''aaaa'', ''payload'']" "[''ffff'']" "[''https://b/go.tar.gz'', ''https://c/go.tar.gz'']"] h
    by blast
  have 2: "do_curls ?V ?f [''https://a/go.tar.gz'', ''https://b/go.tar.gz'', ''https://c/go.tar.gz''] ?w
    = (0, \<lparr>files = [?f \<mapsto> \<lparr>content = [''bbbb'', ''payload''], mtime = 1700000000, executable = False\<rparr>,
                     ?f @ ''.sha256'' \<mapsto> \<lparr>content = [''bbbb  /tmp/gimme/go.tar.gz''], mtime = 1700000000, executable = False\<rparr>],
          now = 1700000000, net = example_net,
          fetched = [''https://a/go.tar.gz'', ''https://a/go.tar.gz.sha256'',
                     ''https://b/go.tar.gz'', ''https://b/go.tar.gz.sha256'']\<rparr>)"
    by (simp add: defs fun_upd_twist)
  have 3: "fst (do_curls ?V ?f [''https://c/go.tar.gz''] ?w) = 0"
    by (simp add: defs)
  have 4: "do_curls ?V ?f [''https://d/go.tar.gz''] ?w
    = (1, \<lparr>files = Map.empty, now = 1700000000, net = example_net, fetched = [''https://d/go.tar.gz'']\<rparr>)"
    by (simp add: defs)
  show ?thesis
    unfolding 2 4 using 1 3 by simp
qed

section \<open>Properties of reuse and of the forced reinstall\<close>

lemma map_add_semicolon_id:
  "list_all (\<lambda>l. l = [] \<or> last l = CHR '';'') ls \<Longrightarrow> map add_semicolon ls = ls"
  by (induction ls) (auto simp: add_semicolon_def)

lemma try_existing_binary_present:
  assumes "is_executable (existing_ver cfg ''binary'' @ ''/bin/go'') w"
    and "non_empty_file (existing_env cfg ''binary'') w"
  shows "try_existing cfg [] w =
           (0, map add_semicolon (read_file (existing_env cfg ''binary'') w) @
               (if list_ex (starts_with ''unset GOROOT'') (read_file (existing_env cfg ''binary'') w)
                then List.map_filter goroot_from_path (read_file (existing_env cfg ''binary'') w) @ [[]]
                else []) @
               [''export GIMME_ENV='' @ squote @ existing_env cfg ''binary'' @ squote @ '';''])"
  using assms by (simp add: try_existing_def try_existing_kind_def Let_def)

text \<open>
  Claim C6 says that with type \<^verbatim>\<open>auto\<close> and an existing binary installation the
  descriptor's content is returned unchanged, with no network call.  Nothing is
  fetched, but what is printed is not the content: line 435 adds a semicolon to every
  line that lacks one, lines 440-443 add a \<^verbatim>\<open>GOROOT\<close> for a descriptor that unsets it,
  and line 445 adds the \<^verbatim>\<open>GIMME_ENV\<close> line.  The claim as amended: with type \<^verbatim>\<open>auto\<close>,
  the go binary of the installation executable and its descriptor non-empty, the
  install runs no other strategy and leaves the world (the files and the requests
  made) as it was, and it prints the descriptor's lines, each ending in a semicolon
  when not empty, then the \<^verbatim>\<open>GOROOT\<close> lines and an empty line if a line starts with
  \<^verbatim>\<open>unset GOROOT\<close>, then \<^verbatim>\<open>export GIMME_ENV='<descriptor>';\<close>; for a descriptor whose
  non-empty lines end in semicolons and which does not unset \<^verbatim>\<open>GOROOT\<close> that is the
  content followed by the \<^verbatim>\<open>GIMME_ENV\<close> line.
\<close>

theorem auto_reuses_existing_binary:
  assumes "GIMME_TYPE cfg = ''auto''"
    and "is_executable (existing_ver cfg ''binary'' @ ''/bin/go'') w"
    and "non_empty_file (existing_env cfg ''binary'') w"
  shows "dispatch cfg try_binary try_source try_git w =
           (0, map add_semicolon (read_file (existing_env cfg ''binary'') w) @
               (if list_ex (starts_with ''unset GOROOT'') (read_file (existing_env cfg ''binary'') w)
                then List.map_filter goroot_from_path (read_file (existing_env cfg ''binary'') w) @ [[]]
                else []) @
               [''export GIMME_ENV='' @ squote @ existing_env cfg ''binary'' @ squote @ '';''],
            w) \<and>
         (list_all (\<lambda>l. l = [] \<or> last l = CHR '';'') (read_file (existing_env cfg ''binary'') w) \<and>
          \<not> list_ex (starts_with ''unset GOROOT'') (read_file (existing_env cfg ''binary'') w)
          \<longrightarrow> dispatch cfg try_binary try_source try_git w =
                 (0, read_file (existing_env cfg ''binary'') w @
                     [''export GIMME_ENV='' @ squote @ existing_env cfg ''binary'' @ squote @ '';''],
                  w))"
proof -
  have d: "dispatch cfg try_binary try_source try_git w =
      (case try_existing cfg [] w of
         (st, out) \<Rightarrow> if st = 0 then (0, out, w)
           else (case or_else (existing cfg []) (or_else try_binary (or_else try_source try_git)) w of
              (ok, out, w') \<Rightarrow> (if ok then 0 else 1, out, w')))"
    using assms(1)
    by (simp add: dispatch_def or_else_def existing_def split: prod.splits)
  show ?thesis
    unfolding d try_existing_binary_present [OF assms(2,3)]
    by (simp add: map_add_semicolon_id)
qed

theorem auto_reuses_existing_binary_witness:
  "dispatch config_1_21 fetching_strategy fetching_strategy fetching_strategy installed_world =
     (0, read_file (existing_env config_1_21 ''binary'') installed_world @
         [''export GIMME_ENV='' @ squote @ existing_env config_1_21 ''binary'' @ squote @ '';''],
      installed_world) \<and>
   fetched installed_world = []"
proof -
  note defs = config_1_21_def default_config_def installed_world_def unpacked_world_def
    existing_ver_def existing_env_def is_executable_def non_empty_file_def read_file_def
    write_file_def env_def example_go_def starts_with_def
  have 1: "GIMME_TYPE config_1_21 = ''auto''"
    by (simp add: config_1_21_def default_config_def)
  have 2: "is_executable (existing_ver config_1_21 ''binary'' @ ''/bin/go'') installed_world"
    by (simp add: defs)
  have 3: "non_empty_file (existing_env config_1_21 ''binary'') installed_world"
    by (simp add: defs)
  have 4: "list_all (\<lambda>l. l = [] \<or> last l = CHR '';'')
             (read_file (existing_env config_1_21 ''binary'') installed_world) \<and>
           \<not> list_ex (starts_with ''unset GOROOT'')
             (read_file (existing_env config_1_21 ''binary'') installed_world)"
    by (simp add: defs squote_def dquote_def)
  have 5: "fetched installed_world = []"
    by (simp add: defs)
  from auto_reuses_existing_binary [OF 1 2 3, of fetching_strategy fetching_strategy fetching_strategy]
    4 5 show ?thesis by blast
qed

theorem existing_output_counterexample:
  "GIMME_TYPE config_1_21 = ''auto'' \<and>
   is_executable (existing_ver config_1_21 ''binary'' @ ''/bin/go'') legacy_world \<and>
   non_empty_file (existing_env config_1_21 ''binary'') legacy_world \<and>
   take 2 (read_file (existing_env config_1_21 ''binary'') legacy_world)
     = [''unset GOOS'', ''unset GOARCH''] \<and>
   take 2 (fst (snd (dispatch config_1_21 fetching_strategy fetching_strategy fetching_strategy
      legacy_world))) = [''unset GOOS;'', ''unset GOARCH;''] \<and>
   fst (snd (dispatch config_1_21 fetching_strategy fetching_strategy fetching_strategy legacy_world))
     \<noteq> read_file (existing_env config_1_21 ''binary'') legacy_world \<and>
   fst (snd (dispatch config_1_21 fetching_strategy fetching_strategy fetching_strategy installed_world))
     \<noteq> read_file (existing_env config_1_21 ''binary'') installed_world"
  by (simp add: config_1_21_def default_config_def installed_world_def legacy_world_def
      unpacked_world_def existing_ver_def existing_env_def is_executable_def non_empty_file_def
      read_file_def write_file_def env_def example_go_def starts_with_def dispatch_def
      or_else_def existing_def try_existing_def try_existing_kind_def add_semicolon_def
      squote_def dquote_def Let_def)

text \<open>
  Claim C7 says that a forced reinstall removes the install directory and its
  descriptor together.  For the descriptor that \<^verbatim>\<open>_env\<close> writes it removes the
  descriptor alone: line 514 looks for the directory between double quotes on the
  \<^verbatim>\<open>GOROOT\<close> line, and line 386 writes it between single quotes, so awk prints an empty
  line and \<^verbatim>\<open>rm -rf\<close> gets the empty path.  The installation is then taken as absent,
  as the claim says of a record that misses a piece.
\<close>

theorem wipe_version_leaves_directory:
  "read_file (existing_env config_1_21 ''binary'') installed_world
     = snd (env config_1_21 example_go (existing_ver config_1_21 ''binary'') unpacked_world) \<and>
   fst (try_existing config_1_21 ''binary'' installed_world) = 0 \<and>
   awk_goroot (read_file (existing_env config_1_21 ''binary'') installed_world) = [[]] \<and>
   files (wipe_version config_1_21 ''1.21.0'' installed_world)
     (existing_ver config_1_21 ''binary'' @ ''/bin/go'')
     = Some \<lparr>content = [''ELF''], mtime = 1700000000, executable = True\<rparr> \<and>
   files (wipe_version config_1_21 ''1.21.0'' installed_world)
     (existing_env config_1_21 ''binary'') = None \<and>
   fst (try_existing config_1_21 ''binary'' (wipe_version config_1_21 ''1.21.0'' installed_world)) = 1"
  by (simp add: config_1_21_def default_config_def installed_world_def
      unpacked_world_def existing_ver_def existing_env_def is_executable_def non_empty_file_def
      read_file_def write_file_def env_def example_go_def starts_with_def
      try_existing_def try_existing_kind_def wipe_version_def awk_goroot_def awk_field2_def
      command_text_def command_subst_def rm_rf_def rm_f_def
      squote_def dquote_def Let_def)

section \<open>Properties of the resolver\<close>

lemma fst_update_remote_known_list [simp]:
  "fst (update_remote_known_list_if_needed cfg w) = known_list cfg"
  by (simp add: update_remote_known_list_if_needed_def Let_def split_beta)

lemma scan_known_filter:
  "scan_known base ls l0 =
     (if filter (search_matches base) (map read_r ls) = [] then l0
      else last (filter (search_matches base) (map read_r ls)))"
  by (induction ls arbitrary: l0) simp_all

lemma search_matches_nonempty:
  "valid_base base \<Longrightarrow> search_matches base v \<Longrightarrow> v \<noteq> []"
  by (auto simp: valid_base_def search_matches_def)

lemma last_filter_matches:
  assumes "filter P xs \<noteq> []"
  shows "P (last (filter P xs))"
proof -
  from assms have "last (filter P xs) \<in> set (filter P xs)" by (rule last_in_set)
  then show ?thesis by simp
qed

lemma resolve_x_filter:
  assumes "valid_base base"
  shows "resolve_x cfg (base @ ''.x'') w =
     (if filter (search_matches base)
           (map read_r (read_file (known_list cfg) (snd (update_remote_known_list_if_needed cfg w)))) \<noteq> []
      then (0, [last (filter (search_matches base)
           (map read_r (read_file (known_list cfg) (snd (update_remote_known_list_if_needed cfg w)))))],
            snd (update_remote_known_list_if_needed cfg w))
      else (2, [base @ ''.x''], snd (update_remote_known_list_if_needed cfg w)))"
proof -
  obtain k w' where u: "update_remote_known_list_if_needed cfg w = (k, w')"
    by (cases "update_remote_known_list_if_needed cfg w")
  have k: "k = known_list cfg"
    using fst_update_remote_known_list [of cfg w] u by simp
  let ?ms = "filter (search_matches base) (map read_r (read_file (known_list cfg) w'))"
  have ne: "?ms \<noteq> [] \<Longrightarrow> last ?ms \<noteq> []"
    using search_matches_nonempty [OF assms] last_filter_matches [of "search_matches base"] by blast
  have "resolve_x cfg (base @ ''.x'') w =
      (if ?ms \<noteq> [] then (0, [last ?ms], w') else (2, [base @ ''.x''], w'))"
    using assms ne by (simp add: resolve_x_def u k scan_known_filter Let_def)
  then show ?thesis by (simp add: u)
qed

lemma wildcard_not_alias:
  "base @ ''.x'' \<noteq> ''stable''" "base @ ''.x'' \<noteq> ''oldstable''" "base @ ''.x'' \<noteq> ''tip''"
proof -
  have "last (base @ ''.x'') = CHR ''x''" by simp
  then show "base @ ''.x'' \<noteq> ''stable''" "base @ ''.x'' \<noteq> ''oldstable''" "base @ ''.x'' \<noteq> ''tip''"
    by auto
qed

lemma ends_with_dot_x [simp]: "ends_with ''.x'' (base @ ''.x'')"
  by (simp add: ends_with_def starts_with_def)

lemma resolve_version_wildcard:
  "resolve_version e cfg avg (base @ ''.x'') w =
     (case resolve_x cfg (base @ ''.x'') w of (st, out, w') \<Rightarrow> (Returned st, out, w'))"
  using wildcard_not_alias [of base]
  by (simp add: resolve_version_def resolve_plain_def)

lemma sorted_le_last:
  "sorted ys \<Longrightarrow> y \<in> set ys \<Longrightarrow> y \<le> last ys"
  by (induction ys) auto

lemma sorted_key_last:
  assumes "sorted (map f xs)" and "x \<in> set xs"
  shows "f x \<le> f (last xs)"
proof -
  from assms(2) have ne: "xs \<noteq> []" by auto
  have "f x \<in> set (map f xs)" using assms(2) by simp
  with assms(1) have "f x \<le> last (map f xs)" by (rule sorted_le_last)
  then show ?thesis using ne by (simp add: last_map)
qed

lemma sorted_filter_last:
  assumes "sorted (map f xs)" and "x \<in> set xs" and "P x"
  shows "f x \<le> f (last (filter P xs))"
proof -
  have "sorted (map f (filter P xs))" using assms(1) by (rule sorted_filter)
  moreover have "x \<in> set (filter P xs)" using assms(2,3) by simp
  ultimately show ?thesis by (rule sorted_key_last)
qed


lemma split_on_not_Nil [simp]: "split_on d xs \<noteq> []"
  by (induction xs) (auto split: list.splits)

lemma split_on_append:
  "split_on d (xs @ d # ys) = split_on d xs @ split_on d ys"
proof (induction xs)
  case Nil
  then show ?case by simp
next
  case (Cons c xs)
  obtain f fs where f: "split_on d xs = f # fs"
    by (cases "split_on d xs") simp_all
  with Cons show ?case by simp
qed

lemma split_on_absent: "d \<notin> set ys \<Longrightarrow> split_on d ys = [ys]"
  by (induction ys) auto

lemma version_key_component:
  assumes "CHR ''.'' \<notin> set c"
  shows "fst (version_key (p @ ''.'' @ c))
           = map nat_of_digits (split_on CHR ''.'' p) @ [nat_of_digits c]"
  using assms by (simp add: version_key_def split_on_append split_on_absent)

lemma append_same_le:
  fixes ks :: "nat list"
  shows "(ks @ [a] \<le> ks @ [b]) = (a \<le> b)"
  by (induction ks) auto

lemma version_key_10_1: "\<not> version_key (p @ ''.10'') \<le> version_key (p @ ''.1'')"
proof -
  have a: "fst (version_key (p @ ''.10'')) = map nat_of_digits (split_on CHR ''.'' p) @ [10]"
    using version_key_component [of "''10''" p] by (simp add: nat_of_digits_def digit_val_def)
  have b: "fst (version_key (p @ ''.1'')) = map nat_of_digits (split_on CHR ''.'' p) @ [1]"
    using version_key_component [of "''1''" p] by (simp add: nat_of_digits_def digit_val_def)
  have "\<not> fst (version_key (p @ ''.10'')) \<le> fst (version_key (p @ ''.1''))"
    unfolding a b by (simp add: append_same_le)
  then show ?thesis by (auto simp: less_eq_prod_def)
qed

lemma version_key_10_2: "\<not> version_key (p @ ''.10'') \<le> version_key (p @ ''.2'')"
proof -
  have a: "fst (version_key (p @ ''.10'')) = map nat_of_digits (split_on CHR ''.'' p) @ [10]"
    using version_key_component [of "''10''" p] by (simp add: nat_of_digits_def digit_val_def)
  have b: "fst (version_key (p @ ''.2'')) = map nat_of_digits (split_on CHR ''.'' p) @ [2]"
    using version_key_component [of "''2''" p] by (simp add: nat_of_digits_def digit_val_def)
  have "\<not> fst (version_key (p @ ''.10'')) \<le> fst (version_key (p @ ''.2''))"
    unfolding a b by (simp add: append_same_le)
  then show ?thesis by (auto simp: less_eq_prod_def)
qed

lemma search_matches_component:
  assumes "c \<noteq> []" and "list_all version_char c"
  shows "search_matches p (p @ ''.'' @ c)"
  using assms by (simp add: search_matches_def starts_with_def)

lemma last_of_three_sorted:
  assumes s: "sorted (map version_key known)"
    and k: "set known = {p @ ''.1'', p @ ''.2'', p @ ''.10''}"
  shows "last known = p @ ''.10''"
proof -
  have ne: "known \<noteq> []" using k by auto
  then have "last known \<in> set known" by (rule last_in_set)
  with k have c: "last known = p @ ''.1'' \<or> last known = p @ ''.2'' \<or> last known = p @ ''.10''"
    by simp
  have "p @ ''.10'' \<in> set known" using k by simp
  with s have "version_key (p @ ''.10'') \<le> version_key (last known)"
    by (rule sorted_key_last)
  with c version_key_10_1 [of p] version_key_10_2 [of p] show ?thesis by metis
qed

text \<open>
  What the branch for \<^verbatim>\<open>.x\<close> does with the catalog as the refresh leaves it, for a
  base that matches \<^verbatim>\<open>^[0-9.]+$\<close>: the last line of the file that matches is printed
  with status 0; when no line matches, the status is 2 and the specifier itself is
  printed.  Whether the last matching line is the highest version is a matter of the
  order of the file.
\<close>

lemma wildcard_last_match:
  assumes "valid_base base"
    and "w' = snd (update_remote_known_list_if_needed cfg w)"
    and "known = map read_r (read_file (known_list cfg) w')"
    and "ms = filter (search_matches base) known"
  shows "(ms \<noteq> [] \<longrightarrow>
            resolve_version e cfg avg (base @ ''.x'') w = (Returned 0, [last ms], w') \<and>
            search_matches base (last ms) \<and>
            (sorted (map version_key known) \<longrightarrow>
               (\<forall>v\<in>set known. search_matches base v \<longrightarrow> version_key v \<le> version_key (last ms)))) \<and>
         (ms = [] \<longrightarrow>
            resolve_version e cfg avg (base @ ''.x'') w = (Returned 2, [base @ ''.x''], w')) \<and>
         (set known = {base @ ''.1'', base @ ''.2'', base @ ''.10''} \<and> sorted (map version_key known) \<longrightarrow>
            resolve_version e cfg avg (base @ ''.x'') w = (Returned 0, [base @ ''.10''], w'))"
proof -
  have r: "resolve_version e cfg avg (base @ ''.x'') w =
      (if ms \<noteq> [] then (Returned 0, [last ms], w') else (Returned 2, [base @ ''.x''], w'))"
    unfolding resolve_version_wildcard resolve_x_filter [OF assms(1)] assms(2,3,4) by simp
  have a: "ms \<noteq> [] \<longrightarrow>
      resolve_version e cfg avg (base @ ''.x'') w = (Returned 0, [last ms], w') \<and>
      search_matches base (last ms) \<and>
      (sorted (map version_key known) \<longrightarrow>
         (\<forall>v\<in>set known. search_matches base v \<longrightarrow> version_key v \<le> version_key (last ms)))"
  proof
    assume ne: "ms \<noteq> []"
    have 1: "resolve_version e cfg avg (base @ ''.x'') w = (Returned 0, [last ms], w')"
      using r ne by simp
    have 2: "search_matches base (last ms)"
      using ne last_filter_matches [of "search_matches base" known] assms(4) by simp
    have 3: "sorted (map version_key known) \<longrightarrow>
        (\<forall>v\<in>set known. search_matches base v \<longrightarrow> version_key v \<le> version_key (last ms))"
      using sorted_filter_last [of version_key known _ "search_matches base"] assms(4) by blast
    from 1 2 3 show "resolve_version e cfg avg (base @ ''.x'') w = (Returned 0, [last ms], w') \<and>
      search_matches base (last ms) \<and>
      (sorted (map version_key known) \<longrightarrow>
         (\<forall>v\<in>set known. search_matches base v \<longrightarrow> version_key v \<le> version_key (last ms)))"
      by blast
  qed
  have b: "ms = [] \<longrightarrow>
      resolve_version e cfg avg (base @ ''.x'') w = (Returned 2, [base @ ''.x''], w')"
    using r by simp
  have c: "set known = {base @ ''.1'', base @ ''.2'', base @ ''.10''} \<and> sorted (map version_key known) \<longrightarrow>
      resolve_version e cfg avg (base @ ''.x'') w = (Returned 0, [base @ ''.10''], w')"
  proof
    assume h: "set known = {base @ ''.1'', base @ ''.2'', base @ ''.10''} \<and> sorted (map version_key known)"
    have m: "search_matches base (base @ ''.1'')" "search_matches base (base @ ''.2'')"
      "search_matches base (base @ ''.10'')"
      using search_matches_component [of "''1''" base] search_matches_component [of "''2''" base]
        search_matches_component [of "''10''" base]
      by (simp_all add: version_char_def digit_def)
    have "\<forall>v\<in>set known. search_matches base v" using h m by auto
    then have "ms = known" using assms(4) by simp
    moreover have "known \<noteq> []" using h by auto
    moreover have "last known = base @ ''.10''"
      using h last_of_three_sorted [of known base] by blast
    ultimately show "resolve_version e cfg avg (base @ ''.x'') w = (Returned 0, [base @ ''.10''], w')"
      using r by simp
  qed
  from a b c show ?thesis by blast
qed

lemma download_world_catalog:
  "read_file (known_list default_config)
     (snd (update_remote_known_list_if_needed default_config download_world))
   = [''1.9.1'', ''1.9.2'', ''1.9.10'']"
  by code_simp

lemma example_sorted: "sorted (map version_key [''1.9.1'', ''1.9.2'', ''1.9.10''])"
  by code_simp

lemma fresh_resolver_world:
  "update_remote_known_list_if_needed default_config (resolver_world 1700000000 1700000005 None)
     = (known_list default_config, resolver_world 1700000000 1700000005 None)"
  by (simp add: update_remote_known_list_if_needed_def default_config_def resolver_world_def
      known_list_def known_dl_def file_older_than_secs_def last_mod_timestamp_def stat_mtime_def
      ends_with_def starts_with_def Let_def)

lemma wildcard_last_match_examples:
  "resolve_version False default_config no_git_reference ''1.9.x'' download_world
     = (Returned 0, [''1.9.10''],
        snd (update_remote_known_list_if_needed default_config download_world)) \<and>
   read_file (known_list default_config)
     (snd (update_remote_known_list_if_needed default_config download_world))
     = [''1.9.1'', ''1.9.2'', ''1.9.10''] \<and>
   resolve_version False default_config no_git_reference ''1.21.x''
     (resolver_world 1700000000 1700000005 None)
     = (Returned 0, [''1.21.5''], resolver_world 1700000000 1700000005 None) \<and>
   resolve_version False default_config no_git_reference ''1.23.x''
     (resolver_world 1700000000 1700000005 None)
     = (Returned 2, [''1.23.x''], resolver_world 1700000000 1700000005 None)"
proof -
  let ?d = "snd (update_remote_known_list_if_needed default_config download_world)"
  let ?r = "resolver_world 1700000000 1700000005 None"
  have vb: "valid_base ''1.9''" "valid_base ''1.21''" "valid_base ''1.23''"
    by (simp_all add: valid_base_def version_char_def digit_def)
  have kd: "map read_r (read_file (known_list default_config) ?d) = [''1.9.1'', ''1.9.2'', ''1.9.10'']"
    unfolding download_world_catalog by (simp add: read_r_def blank_def)
  have sd: "set (map read_r (read_file (known_list default_config) ?d))
      = {''1.9'' @ ''.1'', ''1.9'' @ ''.2'', ''1.9'' @ ''.10''} \<and>
    sorted (map version_key (map read_r (read_file (known_list default_config) ?d)))"
    unfolding kd using example_sorted by auto
  have 1: "resolve_version False default_config no_git_reference ''1.9.x'' download_world
     = (Returned 0, [''1.9.10''], ?d)"
    using wildcard_last_match [OF vb(1) refl refl refl, where e = False and cfg = default_config
        and w = download_world and avg = no_git_reference] sd
    by simp
  have wr: "snd (update_remote_known_list_if_needed default_config ?r) = ?r"
    by (simp add: fresh_resolver_world)
  have kr: "map read_r (read_file (known_list default_config) ?r)
      = [''1.20.14'', ''1.21.0'', ''1.21.5'', ''1.22.0'', ''1.22.3'']"
    by (simp add: read_file_def known_list_def default_config_def resolver_world_def
        read_r_def blank_def)
  have m21: "filter (search_matches ''1.21'') [''1.20.14'', ''1.21.0'', ''1.21.5'', ''1.22.0'', ''1.22.3'']
      = [''1.21.0'', ''1.21.5'']"
    by (simp add: search_matches_def starts_with_def version_char_def digit_def)
  have m23: "filter (search_matches ''1.23'') [''1.20.14'', ''1.21.0'', ''1.21.5'', ''1.22.0'', ''1.22.3'']
      = []"
    by (simp add: search_matches_def starts_with_def version_char_def digit_def)
  have 2: "resolve_version False default_config no_git_reference ''1.21.x'' ?r
     = (Returned 0, [''1.21.5''], ?r)"
    using wildcard_last_match [OF vb(2) refl refl refl, where e = False and cfg = default_config
        and w = ?r and avg = no_git_reference]
    unfolding wr kr m21 by simp
  have 3: "resolve_version False default_config no_git_reference ''1.23.x'' ?r
     = (Returned 2, [''1.23.x''], ?r)"
    using wildcard_last_match [OF vb(3) refl refl refl, where e = False and cfg = default_config
        and w = ?r and avg = no_git_reference]
    unfolding wr kr m23 by simp
  from 1 2 3 download_world_catalog show ?thesis by blast
qed

text \<open>
  Claim C1 says that a wildcard resolves to the highest matching entry of the catalog,
  \<open>P.x\<close> to \<open>P.10\<close> when the catalog holds \<open>P.1\<close>, \<open>P.2\<close> and \<open>P.10\<close>, and that
  the resolution fails only when no entry matches.  The scan of lines 627-630 keeps the
  last matching line of the file, and the order of the file is that of
  \<^verbatim>\<open>_version_sort\<close> (line 565).  On a host where line 124 takes the fallback, a download
  page with 1.9.10, 1.9.1 and 1.9.2 gives the catalog 1.9.10, 1.9.1, 1.9.2, and
  \<^verbatim>\<open>1.9.x\<close> resolves to 1.9.2 with status 0; a download page with 1.20.14 and 1.21.0
  gives the catalog 1.20.14, \<^verbatim>\<open>1.21.\<close>, and \<^verbatim>\<open>1.21.x\<close> ends with status 2.  With
  \<^verbatim>\<open>sort --version-sort\<close> the same downloads resolve to 1.9.10 and to 1.21.0.
\<close>

theorem resolve_wildcard_fallback_host:
  "read_file (known_list default_config)
     (snd (update_remote_known_list_if_needed (default_config\<lparr>has_version_sort := False\<rparr>)
        download_world))
     = [''1.9.10'', ''1.9.1'', ''1.9.2''] \<and>
   fst (resolve_version False (default_config\<lparr>has_version_sort := False\<rparr>)
      no_git_reference ''1.9.x'' download_world) = Returned 0 \<and>
   fst (snd (resolve_version False (default_config\<lparr>has_version_sort := False\<rparr>)
      no_git_reference ''1.9.x'' download_world)) = [''1.9.2''] \<and>
   fst (snd (resolve_version False default_config no_git_reference ''1.9.x'' download_world))
     = [''1.9.10''] \<and>
   read_file (known_list default_config)
     (snd (update_remote_known_list_if_needed (default_config\<lparr>has_version_sort := False\<rparr>)
        release_world))
     = [''1.20.14'', ''1.21.''] \<and>
   fst (resolve_version False (default_config\<lparr>has_version_sort := False\<rparr>)
      no_git_reference ''1.21.x'' release_world) = Returned 2 \<and>
   fst (snd (resolve_version False (default_config\<lparr>has_version_sort := False\<rparr>)
      no_git_reference ''1.21.x'' release_world)) = [''1.21.x''] \<and>
   fst (resolve_version False default_config no_git_reference ''1.21.x'' release_world)
     = Returned 0 \<and>
   fst (snd (resolve_version False default_config no_git_reference ''1.21.x'' release_world))
     = [''1.21.0'']"
  by code_simp













lemma resolver_world_1_21:
  "resolve_version False default_config no_git_reference ''1.21.x''
     (resolver_world 1700000000 1700000005 None)
   = (Returned 0, [''1.21.5''], resolver_world 1700000000 1700000005 None)"
proof -
  have vb: "valid_base ''1.21''"
    by (simp add: valid_base_def version_char_def digit_def)
  have k: "map read_r (read_file (known_list default_config) (resolver_world 1700000000 1700000005 None))
      = [''1.20.14'', ''1.21.0'', ''1.21.5'', ''1.22.0'', ''1.22.3'']"
    by (simp add: read_file_def known_list_def default_config_def resolver_world_def
        read_r_def blank_def)
  have m: "filter (search_matches ''1.21'') [''1.20.14'', ''1.21.0'', ''1.21.5'', ''1.22.0'', ''1.22.3'']
      = [''1.21.0'', ''1.21.5'']"
    by (simp add: search_matches_def starts_with_def version_char_def digit_def)
  have wr: "snd (update_remote_known_list_if_needed default_config
      (resolver_world 1700000000 1700000005 None)) = resolver_world 1700000000 1700000005 None"
    by (simp add: fresh_resolver_world)
  have x: "resolve_x default_config (''1.21'' @ ''.x'') (resolver_world 1700000000 1700000005 None)
      = (0, [''1.21.5''], resolver_world 1700000000 1700000005 None)"
    unfolding resolve_x_filter [OF vb] wr k m by simp
  have "resolve_version False default_config no_git_reference (''1.21'' @ ''.x'')
      (resolver_world 1700000000 1700000005 None)
      = (Returned 0, [''1.21.5''], resolver_world 1700000000 1700000005 None)"
    unfolding resolve_version_wildcard x by simp
  then show ?thesis by simp
qed









end
